theory Spec2Isabelle
  imports Main "HOL-Library.AList"
begin

section \<open>The AI chat service of Flowly: command resolution and the endpoint guard\<close>

text \<open>
  A shallow embedding of \<^verbatim>\<open>backend/src/modules/ai-chat/ai-chat.service.ts\<close>.
  What the service gets from outside (the settings store, the entity lookup services, the
  model provider, the grammar file \<^verbatim>\<open>commands.json\<close>) and what the JavaScript platform
  computes (\<^verbatim>\<open>new URL\<close>, \<^verbatim>\<open>JSON.parse\<close>, the regular-expression engine on the
  heuristic patterns) are parameters of the model. Exceptions are values of a sum type,
  the session map is passed in and returned.
\<close>

subsection \<open>JavaScript strings\<close>

text \<open>
  A string is a list of characters, one \<^typ>\<open>char\<close> for each UTF-16 code unit; \<^typ>\<open>char\<close>
  has the code units below 256, so the white space of \<^verbatim>\<open>\s\<close> and of \<^verbatim>\<open>trim\<close> is
  TAB, LF, VT, FF, CR, SP and NBSP, the line terminators are LF and CR, and
  \<^verbatim>\<open>toLowerCase\<close> maps A-Z and the capital letters of Latin-1.
\<close>

definition isWhiteSpace :: "char \<Rightarrow> bool" where
  "isWhiteSpace c =
     (c \<in> set [CHR 0x09, CHR 0x0A, CHR 0x0B, CHR 0x0C, CHR 0x0D, CHR '' '', CHR 0xA0])"

definition isLineTerminator :: "char \<Rightarrow> bool" where
  "isLineTerminator c = (c \<in> set [CHR 0x0A, CHR 0x0D])"

definition trim :: "string \<Rightarrow> string" where
  "trim s = rev (dropWhile isWhiteSpace (rev (dropWhile isWhiteSpace s)))"

definition startsWith :: "string \<Rightarrow> string \<Rightarrow> bool" where
  "startsWith s p = (take (length p) s = p)"

definition endsWith :: "string \<Rightarrow> string \<Rightarrow> bool" where
  "endsWith s p = (length p \<le> length s \<and> drop (length s - length p) s = p)"

fun includesStr :: "string \<Rightarrow> string \<Rightarrow> bool" where
  "includesStr [] p = (p = [])"
| "includesStr (c # s) p = (startsWith (c # s) p \<or> includesStr s p)"

fun join :: "string \<Rightarrow> string list \<Rightarrow> string" where
  "join sep [] = []"
| "join sep [x] = x"
| "join sep (x # y # ys) = x @ sep @ join sep (y # ys)"

definition upperCaseLetters :: "char list" where
  "upperCaseLetters = ''ABCDEFGHIJKLMNOPQRSTUVWXYZ'' @
     [CHR 0xC0, CHR 0xC1, CHR 0xC2, CHR 0xC3, CHR 0xC4, CHR 0xC5, CHR 0xC6, CHR 0xC7,
      CHR 0xC8, CHR 0xC9, CHR 0xCA, CHR 0xCB, CHR 0xCC, CHR 0xCD, CHR 0xCE, CHR 0xCF,
      CHR 0xD0, CHR 0xD1, CHR 0xD2, CHR 0xD3, CHR 0xD4, CHR 0xD5, CHR 0xD6,
      CHR 0xD8, CHR 0xD9, CHR 0xDA, CHR 0xDB, CHR 0xDC, CHR 0xDD, CHR 0xDE]"

definition lowerCaseLetters :: "char list" where
  "lowerCaseLetters = ''abcdefghijklmnopqrstuvwxyz'' @
     [CHR 0xE0, CHR 0xE1, CHR 0xE2, CHR 0xE3, CHR 0xE4, CHR 0xE5, CHR 0xE6, CHR 0xE7,
      CHR 0xE8, CHR 0xE9, CHR 0xEA, CHR 0xEB, CHR 0xEC, CHR 0xED, CHR 0xEE, CHR 0xEF,
      CHR 0xF0, CHR 0xF1, CHR 0xF2, CHR 0xF3, CHR 0xF4, CHR 0xF5, CHR 0xF6,
      CHR 0xF8, CHR 0xF9, CHR 0xFA, CHR 0xFB, CHR 0xFC, CHR 0xFD, CHR 0xFE]"

definition toLowerCase :: "string \<Rightarrow> string" where
  "toLowerCase s =
     map (\<lambda>c. case map_of (zip upperCaseLetters lowerCaseLetters) c of
                 Some l \<Rightarrow> l | None \<Rightarrow> c) s"

subsection \<open>The endpoint guard: \<^verbatim>\<open>validateApiUrl\<close>\<close>

text \<open>
  The object that \<^verbatim>\<open>new URL(apiUrl)\<close> returns, with the four properties the service
  reads. \<open>port\<close> is \<open>None\<close> for the empty string, which is what the platform gives
  when the URL has no port or the default port of its scheme, and \<open>Some n\<close> for the
  decimal numeral of \<open>n\<close>; \<open>href\<close> is what \<^verbatim>\<open>url.toString()\<close> returns. The parser
  itself is a parameter \<open>parseUrl\<close>, \<open>None\<close> where \<^verbatim>\<open>new URL\<close> throws.
\<close>

record url =
  protocol :: string
  hostname :: string
  port :: "nat option"
  href :: string

datatype exception = BadRequestException string | Error string

fun exceptionMessage :: "exception \<Rightarrow> string" where
  "exceptionMessage (BadRequestException m) = m"
| "exceptionMessage (Error m) = m"

definition allowedHosts :: "string list" where
  "allowedHosts =
     [''openrouter.ai'', ''api.openrouter.ai'', ''api.openai.com'', ''api.anthropic.com'',
      ''generativelanguage.googleapis.com'', ''aiplatform.googleapis.com'']"

text \<open>\<^verbatim>\<open>[a-z0-9-]+\<close>, and \<^verbatim>\<open>^[a-z0-9-]+SUFFIX$\<close> for a literal suffix.\<close>

definition isLabel :: "string \<Rightarrow> bool" where
  "isLabel s = (s \<noteq> [] \<and> list_all (\<lambda>c. c \<in> set ''abcdefghijklmnopqrstuvwxyz0123456789-'') s)"

definition labelThen :: "string \<Rightarrow> string \<Rightarrow> bool" where
  "labelThen suffix h = (endsWith h suffix \<and> isLabel (take (length h - length suffix) h))"

definition bedrockServices :: "string list" where
  "bedrockServices =
     [''bedrock'', ''bedrock-runtime'', ''bedrock-agent'', ''bedrock-agent-runtime'',
      ''bedrock-data-automation'', ''bedrock-data-automation-runtime'']"

text \<open>
  \<^verbatim>\<open>/^(bedrock|...)(-fips)?\.([a-z0-9-]+)\.amazonaws\.com$/\<close>: neither the service
  name nor the region has a dot, so the first dot of the text before
  \<^verbatim>\<open>.amazonaws.com\<close> ends the service name.
\<close>

definition awsBedrockPattern :: "string \<Rightarrow> bool" where
  "awsBedrockPattern h =
     (endsWith h ''.amazonaws.com'' \<and>
      (let r = take (length h - length ''.amazonaws.com'') h;
           service = takeWhile (\<lambda>c. c \<noteq> CHR ''.'') r;
           rest = dropWhile (\<lambda>c. c \<noteq> CHR ''.'') r
       in service \<in> set (bedrockServices @ map (\<lambda>s. s @ ''-fips'') bedrockServices) \<and>
          rest \<noteq> [] \<and> isLabel (tl rest)))"

definition azurePattern :: "string \<Rightarrow> bool" where
  "azurePattern h = labelThen ''.openai.azure.com'' h"

text \<open>\<^verbatim>\<open>/^([a-z0-9-]+\.)?aiplatform\.googleapis\.com$|^[a-z0-9-]+\.p\.googleapis\.com$/\<close>\<close>

definition googlePattern :: "string \<Rightarrow> bool" where
  "googlePattern h =
     (h = ''aiplatform.googleapis.com'' \<or> labelThen ''.aiplatform.googleapis.com'' h \<or>
      labelThen ''.p.googleapis.com'' h)"

text \<open>\<^verbatim>\<open>hostname.replace(/^\[|\]$/g, '')\<close>\<close>

definition stripBrackets :: "string \<Rightarrow> string" where
  "stripBrackets h =
     (let h1 = (if startsWith h ''['' then tl h else h)
      in if h1 \<noteq> [] \<and> last h1 = CHR '']'' then butlast h1 else h1)"

text \<open>The host as the guard compares it: lower case, without the brackets of IPv6.\<close>

definition normalizedHost :: "url \<Rightarrow> string" where
  "normalizedHost u = stripBrackets (toLowerCase (hostname u))"

text \<open>The condition of the check \<^verbatim>\<open>Host not allowed\<close>, not negated.\<close>

definition hostAllowed :: "string \<Rightarrow> bool" where
  "hostAllowed h =
     (List.member allowedHosts h \<or> awsBedrockPattern h \<or> azurePattern h \<or> googlePattern h)"

text \<open>\<^verbatim>\<open>/^172\.(1[6-9]|2[0-9]|3[0-1])\./\<close>, \<^verbatim>\<open>/^[fF][cCdD]/\<close>, \<^verbatim>\<open>/^[fF][eE][89aAbB]/\<close>\<close>

definition private172 :: "string \<Rightarrow> bool" where
  "private172 h =
     (startsWith h ''172.'' \<and>
      (case drop 4 h of
         a # b # c # _ \<Rightarrow>
           c = CHR ''.'' \<and>
           (a = CHR ''1'' \<and> b \<in> set ''6789'' \<or> a = CHR ''2'' \<and> b \<in> set ''0123456789'' \<or>
            a = CHR ''3'' \<and> b \<in> set ''01'')
       | _ \<Rightarrow> False))"

definition uniqueLocal :: "string \<Rightarrow> bool" where
  "uniqueLocal h = (case h of a # b # _ \<Rightarrow> a \<in> set ''fF'' \<and> b \<in> set ''cCdD'' | _ \<Rightarrow> False)"

definition linkLocal :: "string \<Rightarrow> bool" where
  "linkLocal h =
     (case h of a # b # c # _ \<Rightarrow> a \<in> set ''fF'' \<and> b \<in> set ''eE'' \<and> c \<in> set ''89aAbB''
      | _ \<Rightarrow> False)"

text \<open>The condition of the check \<^verbatim>\<open>Internal IPs not allowed\<close>.\<close>

definition isInternalHost :: "string \<Rightarrow> bool" where
  "isInternalHost h =
     (List.member [''localhost'', ''127.0.0.1'', ''::1'', ''0.0.0.0''] h \<or>
      startsWith h ''192.168.'' \<or> startsWith h ''10.'' \<or> startsWith h ''127.'' \<or>
      startsWith h ''169.254.'' \<or> private172 h \<or> uniqueLocal h \<or> linkLocal h)"

text \<open>\<^verbatim>\<open>url.port ? Number(url.port) : 443\<close>\<close>

definition effectivePort :: "url \<Rightarrow> nat" where
  "effectivePort u = (case port u of None \<Rightarrow> 443 | Some n \<Rightarrow> n)"

text \<open>\<^verbatim>\<open>.replace(/\/$/, '')\<close>\<close>

definition stripTrailingSlash :: "string \<Rightarrow> string" where
  "stripTrailingSlash s = (if s \<noteq> [] \<and> last s = CHR ''/'' then butlast s else s)"

definition validateApiUrl :: "(string \<Rightarrow> url option) \<Rightarrow> string \<Rightarrow> exception + string" where
  "validateApiUrl parseUrl apiUrl =
     (case parseUrl apiUrl of
        None \<Rightarrow> Inl (BadRequestException ''Invalid URL format'')
      | Some u \<Rightarrow>
          if protocol u \<noteq> ''https:'' then Inl (BadRequestException ''Only HTTPS URLs allowed'')
          else
            let h = normalizedHost u in
            if \<not> List.member allowedHosts h \<and> \<not> awsBedrockPattern h \<and> \<not> azurePattern h \<and>
               \<not> googlePattern h
            then Inl (BadRequestException ''Host not allowed'')
            else if isInternalHost h then Inl (BadRequestException ''Internal IPs not allowed'')
            else if effectivePort u \<noteq> 443
            then Inl (BadRequestException ''Only standard HTTPS port 443 is allowed'')
            else
              let isOpenAIHost = (h = ''api.openai.com'');
                  isOpenRouterHost = (h = ''openrouter.ai'' \<or> h = ''api.openrouter.ai'');
                  isAnthropicHost = (h = ''api.anthropic.com'');
                  isGoogleHost = googlePattern h
              in if \<not> isOpenAIHost \<and> \<not> isOpenRouterHost \<and> \<not> isAnthropicHost \<and> \<not> isGoogleHost
                 then Inl (BadRequestException ''Unsupported AI provider host'')
                 else Inr (stripTrailingSlash (href u)))"

definition detectProvider :: "(string \<Rightarrow> url option) \<Rightarrow> string \<Rightarrow> string" where
  "detectProvider parseUrl apiUrl =
     (case parseUrl apiUrl of
        None \<Rightarrow> ''custom''
      | Some u \<Rightarrow>
          let h = hostname u in
          if h = ''openrouter.ai'' \<or> endsWith h ''.openrouter.ai'' then ''openrouter''
          else if h = ''api.openai.com'' \<or> endsWith h ''.api.openai.com'' then ''openai''
          else if h = ''api.anthropic.com'' \<or> endsWith h ''.api.anthropic.com'' then ''anthropic''
          else if h = ''generativelanguage.googleapis.com'' \<or>
                  endsWith h ''.generativelanguage.googleapis.com'' then ''google''
          else ''custom'')"

subsection \<open>Values of command parameters\<close>

text \<open>
  What \<^verbatim>\<open>JSON.parse\<close> returns. An object is the list of its properties, read with
  \<^const>\<open>map_of\<close> and written with \<^const>\<open>AList.update\<close>; a property that is absent reads
  as \<open>None\<close>, the \<^verbatim>\<open>undefined\<close> of JavaScript. Numbers are the integers below
  \<open>10\<^sup>2\<^sup>1\<close> in absolute value, whose \<^verbatim>\<open>String()\<close> is the decimal numeral. The
  property names read by the service are never names of \<^verbatim>\<open>Object.prototype\<close>.
\<close>

datatype json =
  JNull | JBool bool | JNum int | JStr string | JArr "json list" | JObj "(string \<times> json) list"

type_synonym obj = "(string \<times> json) list"

text \<open>The conversion to a boolean in \<^verbatim>\<open>!x\<close>, \<^verbatim>\<open>x || y\<close>, \<^verbatim>\<open>x ? y : z\<close> and \<^verbatim>\<open>if (x)\<close>.\<close>

fun truthy :: "json option \<Rightarrow> bool" where
  "truthy None = False"
| "truthy (Some JNull) = False"
| "truthy (Some (JBool b)) = b"
| "truthy (Some (JNum n)) = (n \<noteq> 0)"
| "truthy (Some (JStr s)) = (s \<noteq> [])"
| "truthy (Some (JArr xs)) = True"
| "truthy (Some (JObj ps)) = True"

text \<open>\<^verbatim>\<open>x || y\<close>\<close>

definition orElse :: "json option \<Rightarrow> json option \<Rightarrow> json option" where
  "orElse x y = (if truthy x then x else y)"

function showNat :: "nat \<Rightarrow> string" where
  "showNat n =
     (if n < 10 then [''0123456789'' ! n] else showNat (n div 10) @ [''0123456789'' ! (n mod 10)])"
  by pat_completeness auto
termination
  by (relation "measure id") auto

definition showInt :: "int \<Rightarrow> string" where
  "showInt i = (if i < 0 then ''-'' @ showNat (nat (- i)) else showNat (nat i))"

text \<open>
  \<^verbatim>\<open>String(x)\<close>. An object is converted by its method \<^verbatim>\<open>toString\<close>: for what
  \<^verbatim>\<open>JSON.parse\<close> returns that is the method of \<^verbatim>\<open>Object.prototype\<close>, unless the object
  has a property of its own with this name, which is no function; the conversion then
  throws a \<^verbatim>\<open>TypeError\<close>. An array is its elements joined by commas, null elements
  empty, and its conversion throws when that of an element does.
\<close>

fun stringThrows :: "json \<Rightarrow> bool" where
  "stringThrows (JObj ps) = (map_of ps ''toString'' \<noteq> None)"
| "stringThrows (JArr xs) = (\<exists>x \<in> set xs. stringThrows x)"
| "stringThrows j = False"

text \<open>The string, where the conversion does not throw.\<close>

fun jsonString :: "json \<Rightarrow> string" where
  "jsonString JNull = ''null''"
| "jsonString (JBool b) = (if b then ''true'' else ''false'')"
| "jsonString (JNum n) = showInt n"
| "jsonString (JStr s) = s"
| "jsonString (JArr xs) = join '','' (map (\<lambda>x. if x = JNull then [] else jsonString x) xs)"
| "jsonString (JObj ps) = ''[object Object]''"

definition toString :: "json option \<Rightarrow> exception + string" where
  "toString x =
     (case x of
        None \<Rightarrow> Inr ''undefined''
      | Some j \<Rightarrow>
          if stringThrows j then Inl (Error ''Cannot convert object to primitive value'')
          else Inr (jsonString j))"

subsection \<open>The command grammar and \<^verbatim>\<open>validateCommandParameters\<close>\<close>

text \<open>
  The grammar is the content of \<^verbatim>\<open>constants/commands.json\<close>, a parameter \<open>commands\<close>
  of the model.
\<close>

record Command =
  name :: string
  params :: "string list"

record validation =
  valid :: bool
  missing :: "string list"
  vmessage :: "string option"

text \<open>
  The test of the filter that collects the missing parameters; \<open>Inl\<close> is the exception
  of \<^verbatim>\<open>String\<close>, which is not called on a falsy value.
\<close>

definition isMissing :: "obj \<Rightarrow> string \<Rightarrow> exception + bool" where
  "isMissing parameters param =
     (if \<not> truthy (map_of parameters param) then Inr True
      else (case toString (map_of parameters param) of
              Inl e \<Rightarrow> Inl e
            | Inr s \<Rightarrow> Inr (trim s = [])))"

text \<open>The filter, which calls the test on every element in order and ends at an exception.\<close>

fun filterMissing :: "obj \<Rightarrow> string list \<Rightarrow> exception + string list" where
  "filterMissing parameters [] = Inr []"
| "filterMissing parameters (param # rest) =
     (case isMissing parameters param of
        Inl e \<Rightarrow> Inl e
      | Inr b \<Rightarrow>
          (case filterMissing parameters rest of
             Inl e \<Rightarrow> Inl e
           | Inr ms \<Rightarrow> Inr (if b then param # ms else ms)))"

definition validateCommandParameters ::
  "Command list \<Rightarrow> string \<Rightarrow> obj \<Rightarrow> exception + validation" where
  "validateCommandParameters commands commandName parameters =
     (case find (\<lambda>cmd. name cmd = commandName) commands of
        None \<Rightarrow>
          Inr \<lparr>valid = False, missing = [],
               vmessage = Some (''Unknown command: '' @ commandName)\<rparr>
      | Some command \<Rightarrow>
          let requiredParams = filter (\<lambda>p. \<not> endsWith p ''?'') (params command)
          in (case filterMissing parameters requiredParams of
                Inl e \<Rightarrow> Inl e
              | Inr missingParams \<Rightarrow>
                  if length missingParams > 0
                  then Inr \<lparr>valid = False, missing = missingParams,
                            vmessage = Some (''Missing required parameters for '' @ commandName @
                                             '': '' @ join '', '' missingParams)\<rparr>
                  else Inr \<lparr>valid = True, missing = [], vmessage = None\<rparr>))"

subsection \<open>The command extractor\<close>

text \<open>
  The three patterns of \<^verbatim>\<open>chat\<close>, each tried at the leftmost position first:
  \<^verbatim>\<open>/\*\*\[COMMAND:\s*([^\]]+)\]\*\*\s*(\{.*\})$/m\<close>,
  \<^verbatim>\<open>/\[COMMAND:\s*([^\]]+)\]\s*(\{.*\})$/m\<close> and
  \<^verbatim>\<open>/\[COMMAND:\s*([^\]]+)\]\s*(\{.*)/\<close>.

  \<open>commandHead\<close> is \<^verbatim>\<open>\s*([^\]]+)\]\<close> on the text after \<^verbatim>\<open>[COMMAND:\<close>: the greedy
  \<^verbatim>\<open>\s*\<close> takes all white space and the group runs to the first \<^verbatim>\<open>]\<close>; when nothing
  but white space precedes that \<^verbatim>\<open>]\<close>, backtracking leaves its last character to the
  group. The result is the group and the text after the \<^verbatim>\<open>]\<close>. Giving back more
  white space only lengthens the group and ends at the same \<^verbatim>\<open>]\<close>, so what follows
  decides the match.
\<close>

definition commandHead :: "string \<Rightarrow> (string \<times> string) option" where
  "commandHead r =
     (let ws = takeWhile isWhiteSpace r;
          r1 = dropWhile isWhiteSpace r;
          g = takeWhile (\<lambda>c. c \<noteq> CHR '']'') r1;
          r2 = dropWhile (\<lambda>c. c \<noteq> CHR '']'') r1
      in if r2 = [] then None
         else if g \<noteq> [] then Some (g, tl r2)
         else if ws \<noteq> [] then Some ([last ws], tl r2)
         else None)"

text \<open>
  \<^verbatim>\<open>\s*(\{.*\})$\<close> with the flag \<^verbatim>\<open>m\<close>: the dot stops at a line terminator and
  \<^verbatim>\<open>$\<close> holds at the end of a line, so the line that starts at the brace must end in a
  closing brace. \<^verbatim>\<open>\s*(\{.*)\<close>: the line that starts at the brace.
\<close>

definition closedPayload :: "string \<Rightarrow> string option" where
  "closedPayload r =
     (case dropWhile isWhiteSpace r of
        [] \<Rightarrow> None
      | c # t \<Rightarrow>
          let line = takeWhile (\<lambda>c. \<not> isLineTerminator c) t
          in if c = CHR ''{'' \<and> line \<noteq> [] \<and> last line = CHR ''}'' then Some (c # line)
             else None)"

definition openPayload :: "string \<Rightarrow> string option" where
  "openPayload r =
     (case dropWhile isWhiteSpace r of
        [] \<Rightarrow> None
      | c # t \<Rightarrow>
          if c = CHR ''{'' then Some (c # takeWhile (\<lambda>c. \<not> isLineTerminator c) t) else None)"

text \<open>The three patterns anchored at the start of \<open>s\<close>: the two groups of a match.\<close>

definition boldCommandAt :: "string \<Rightarrow> (string \<times> string) option" where
  "boldCommandAt s =
     (if startsWith s ''**[COMMAND:'' then
        (case commandHead (drop (length ''**[COMMAND:'') s) of
           None \<Rightarrow> None
         | Some (g1, r) \<Rightarrow>
             if startsWith r ''**'' then
               (case closedPayload (drop 2 r) of None \<Rightarrow> None | Some g2 \<Rightarrow> Some (g1, g2))
             else None)
      else None)"

definition closedCommandAt :: "string \<Rightarrow> (string \<times> string) option" where
  "closedCommandAt s =
     (if startsWith s ''[COMMAND:'' then
        (case commandHead (drop (length ''[COMMAND:'') s) of
           None \<Rightarrow> None
         | Some (g1, r) \<Rightarrow>
             (case closedPayload r of None \<Rightarrow> None | Some g2 \<Rightarrow> Some (g1, g2)))
      else None)"

definition openCommandAt :: "string \<Rightarrow> (string \<times> string) option" where
  "openCommandAt s =
     (if startsWith s ''[COMMAND:'' then
        (case commandHead (drop (length ''[COMMAND:'') s) of
           None \<Rightarrow> None
         | Some (g1, r) \<Rightarrow>
             (case openPayload r of None \<Rightarrow> None | Some g2 \<Rightarrow> Some (g1, g2)))
      else None)"

text \<open>\<^verbatim>\<open>text.match(pattern)\<close>: the match at the leftmost position that has one.\<close>

fun firstMatch :: "(string \<Rightarrow> 'a option) \<Rightarrow> string \<Rightarrow> 'a option" where
  "firstMatch at [] = at []"
| "firstMatch at (c # s) = (case at (c # s) of Some m \<Rightarrow> Some m | None \<Rightarrow> firstMatch at s)"

definition commandMatch :: "string \<Rightarrow> (string \<times> string) option" where
  "commandMatch aiMessage =
     (case firstMatch boldCommandAt aiMessage of
        Some m \<Rightarrow> Some m
      | None \<Rightarrow>
          (case firstMatch closedCommandAt aiMessage of
             Some m \<Rightarrow> Some m
           | None \<Rightarrow> firstMatch openCommandAt aiMessage))"

subsection \<open>Parsing the payload, with the brace repair\<close>

text \<open>The loop that counts: one up for an opening brace, one down for a closing one.\<close>

definition openBraces :: "string \<Rightarrow> int" where
  "openBraces s =
     fold (\<lambda>c n. if c = CHR ''{'' then n + 1 else if c = CHR ''}'' then n - 1 else n) s 0"

text \<open>The loop that appends a closing brace while the count is positive.\<close>

definition repairedJson :: "string \<Rightarrow> string" where
  "repairedJson parametersString =
     parametersString @ replicate (nat (openBraces parametersString)) (CHR ''}'')"

text \<open>
  The two nested \<^verbatim>\<open>try\<close> blocks around \<^verbatim>\<open>JSON.parse\<close>; \<open>None\<close> is the rethrown
  parse error. The payload starts with a brace, so what is parsed is an object.
\<close>

definition parseParameters :: "(string \<Rightarrow> obj option) \<Rightarrow> string \<Rightarrow> obj option" where
  "parseParameters JSON_parse parametersString =
     (case JSON_parse parametersString of
        Some parameters \<Rightarrow> Some parameters
      | None \<Rightarrow> JSON_parse (repairedJson parametersString))"

subsection \<open>The session context and the environment of a turn\<close>

text \<open>
  The value of \<^verbatim>\<open>conversationContexts\<close> for one session. A field that is absent or
  deleted is \<open>None\<close>. The fields hold what a command's parameters held, which can be
  any value; \<open>lastUpdated\<close> is a time stamp.
\<close>

record session_context =
  workspaceSlug :: "json option"
  workspaceName :: "json option"
  projectSlug :: "json option"
  projectName :: "json option"
  lastUpdated :: nat
  currentWorkSpaceProjectSlug :: "string list option"

type_synonym store = "string \<rightharpoonup> session_context"

datatype slug_status = Exact | Fuzzy | Not_found

text \<open>
  What a turn gets from outside:
  \<^item> \<open>commands\<close>: the grammar;
  \<^item> \<open>settingsGet key userId default\<close>: \<^verbatim>\<open>settingsService.get\<close>, \<open>None\<close> for null;
  \<^item> \<open>findAllSlugs\<close>, \<open>getIdBySlug\<close>, \<open>getAllSlugsByWorkspaceId\<close>, \<open>validateProjectSlug\<close>:
    the workspace and project services, taken to return;
  \<^item> \<open>parseUrl\<close>, \<open>JSON_parse\<close>: the platform's parsers, \<open>None\<close> where they throw;
  \<^item> \<open>matchAllWorkspace i text\<close>, \<open>matchAllProject i text\<close>: the first groups of the
    matches of \<^verbatim>\<open>text.matchAll(pattern)\<close> for the \<open>i\<close>-th pattern of
    \<^verbatim>\<open>workspacePatterns\<close> and \<^verbatim>\<open>projectPatterns\<close>, in order;
  \<^item> \<open>callProvider provider apiUrl apiKey model context slugs history message\<close>: the
    request built from these values, \<^verbatim>\<open>fetch\<close>, and the text read from the response
    (lines 335 to 478 without the call of \<^verbatim>\<open>extractContextFromMessage\<close>); \<open>Inl\<close> is
    the exception thrown there;
  \<^item> \<open>now\<close>: the time of the turn.
\<close>

record env =
  commands :: "Command list"
  settingsGet :: "string \<Rightarrow> string \<Rightarrow> string option \<Rightarrow> string option"
  findAllSlugs :: "string \<Rightarrow> string list"
  getIdBySlug :: "json option \<Rightarrow> string option"
  getAllSlugsByWorkspaceId :: "string \<Rightarrow> string list"
  validateProjectSlug :: "json option \<Rightarrow> slug_status \<times> string"
  parseUrl :: "string \<Rightarrow> url option"
  JSON_parse :: "string \<Rightarrow> obj option"
  matchAllWorkspace :: "nat \<Rightarrow> string \<Rightarrow> string list"
  matchAllProject :: "nat \<Rightarrow> string \<Rightarrow> string list"
  callProvider :: "string \<Rightarrow> string \<Rightarrow> string \<Rightarrow> string option \<Rightarrow> session_context \<Rightarrow>
                   string list \<Rightarrow> (string \<times> string) list \<Rightarrow> string \<Rightarrow> exception + string"
  now :: nat

subsection \<open>The context mutator\<close>

text \<open>\<^verbatim>\<open>.replace(/\s+/g, '-')\<close>\<close>

function collapseWhiteSpace :: "string \<Rightarrow> string" where
  "collapseWhiteSpace [] = []"
| "collapseWhiteSpace (c # s) =
     (if isWhiteSpace c then CHR ''-'' # collapseWhiteSpace (dropWhile isWhiteSpace s)
      else c # collapseWhiteSpace s)"
  by pat_completeness auto
termination
  by (relation "measure length") (auto simp: le_imp_less_Suc length_dropWhile_le)

text \<open>\<^verbatim>\<open>.toLowerCase().replace(/\s+/g, '-').replace(/[^a-z0-9-]/g, '')\<close>\<close>

definition slugOf :: "string \<Rightarrow> string" where
  "slugOf s =
     filter (\<lambda>c. c \<in> set ''abcdefghijklmnopqrstuvwxyz0123456789-'')
       (collapseWhiteSpace (toLowerCase s))"

text \<open>
  The local function \<^verbatim>\<open>slugify\<close>: undefined for undefined and null; a value that is
  not a string has no \<^verbatim>\<open>toLowerCase\<close>, and the call throws.
\<close>

definition slugify :: "json option \<Rightarrow> exception + json option" where
  "slugify str =
     (case str of
        None \<Rightarrow> Inr None
      | Some JNull \<Rightarrow> Inr None
      | Some (JStr s) \<Rightarrow> Inr (Some (JStr (slugOf s)))
      | Some _ \<Rightarrow> Inl (Error ''str?.toLowerCase is not a function''))"

text \<open>\<^verbatim>\<open>parameters.updates?.name\<close>\<close>

definition updatesName :: "obj \<Rightarrow> json option" where
  "updatesName ps = (case map_of ps ''updates'' of Some (JObj us) \<Rightarrow> map_of us ''name'' | _ \<Rightarrow> None)"

text \<open>
  \<^verbatim>\<open>updateContextFromCommand\<close>, without the write to the map, which stores the object
  it already holds. \<open>Inl\<close> is the exception of \<^verbatim>\<open>String(parameters.name)\<close> or of
  \<^verbatim>\<open>slugify\<close>; no field has been assigned when it is thrown, since the command is then
  not \<^verbatim>\<open>navigateToWorkspace\<close> and the assignments of its own branch come after the call.
\<close>

definition updateContextFromCommand ::
  "env \<Rightarrow> string \<Rightarrow> obj \<Rightarrow> session_context \<Rightarrow> exception + session_context" where
  "updateContextFromCommand E commandName ps context =
     (let pName = map_of ps ''name'';
          pSlug = map_of ps ''projectSlug'';
          wSlug = map_of ps ''workspaceSlug'';
          c1 = (if commandName = ''navigateToWorkspace'' \<and> truthy wSlug
                then context\<lparr>currentWorkSpaceProjectSlug :=
                               Some (getAllSlugsByWorkspaceId E
                                 (case getIdBySlug E wSlug of None \<Rightarrow> [] | Some i \<Rightarrow> i)),
                             workspaceSlug := wSlug,
                             workspaceName := orElse (map_of ps ''workspaceName'') wSlug,
                             projectSlug := None, projectName := None\<rparr>
                else context);
          c2 = (if commandName = ''createWorkspace'' \<and> truthy pName
                then (case toString pName of
                        Inl e \<Rightarrow> Inl e
                      | Inr s \<Rightarrow> Inr (c1\<lparr>workspaceSlug := Some (JStr (slugOf s)),
                                           workspaceName := Some (JStr s),
                                           projectSlug := None, projectName := None\<rparr>))
                else Inr c1);
          c3 = (case c2 of
                  Inl e \<Rightarrow> Inl e
                | Inr c \<Rightarrow>
                    if commandName = ''navigateToProject'' \<or> commandName = ''createProject'' then
                      (case (if commandName = ''createProject''
                             then (case (if truthy pName then slugify pName else Inr pSlug) of
                                     Inl e \<Rightarrow> Inl e
                                   | Inr v \<Rightarrow> Inr (c\<lparr>projectSlug := v,
                                                      projectName := orElse pName pSlug\<rparr>))
                             else (case (if truthy pSlug then Inr pSlug
                                         else if truthy pName then slugify pName else Inr None) of
                                     Inl e \<Rightarrow> Inl e
                                   | Inr v \<Rightarrow> Inr (c\<lparr>projectSlug := v,
                                                      projectName := orElse pSlug pName\<rparr>))) of
                         Inl e \<Rightarrow> Inl e
                       | Inr c' \<Rightarrow> Inr (if truthy wSlug then c'\<lparr>workspaceSlug := wSlug\<rparr> else c'))
                    else Inr c)
      in case c3 of
           Inl e \<Rightarrow> Inl e
         | Inr c \<Rightarrow>
             Inr ((if commandName = ''editWorkspace'' \<and> truthy (updatesName ps) \<and> truthy wSlug
                   then c\<lparr>workspaceSlug := wSlug, workspaceName := updatesName ps\<rparr>
                   else c)\<lparr>lastUpdated := now E\<rparr>))"

definition MAX_MESSAGE_LENGTH :: nat where
  "MAX_MESSAGE_LENGTH = 10000"

definition safeMessageOf :: "string \<Rightarrow> string" where
  "safeMessageOf msg = (if length msg > MAX_MESSAGE_LENGTH then take MAX_MESSAGE_LENGTH msg else msg)"

text \<open>
  One round of the loop over \<^verbatim>\<open>workspacePatterns\<close>, for the pattern of index \<open>i\<close>:
  the first match whose group is not empty sets the name and ends the inner loop. The
  state is the context and \<^verbatim>\<open>contextUpdated\<close>.
\<close>

definition workspaceRound ::
  "env \<Rightarrow> string \<Rightarrow> session_context \<times> bool \<Rightarrow> nat \<Rightarrow> session_context \<times> bool" where
  "workspaceRound E safeMessage st i =
     (case find (\<lambda>g. g \<noteq> []) (matchAllWorkspace E i safeMessage) of
        None \<Rightarrow> st
      | Some g \<Rightarrow>
          let c = (fst st)\<lparr>workspaceName := Some (JStr (trim g))\<rparr>
          in (if \<not> includesStr (toLowerCase safeMessage) ''project''
              then c\<lparr>projectSlug := None, projectName := None\<rparr> else c, True))"

definition skipWords :: "string list" where
  "skipWords =
     [''yes'', ''no'', ''ok'', ''fine'', ''good'', ''sure'', ''right'', ''correct'', ''thanks'',
      ''thank you'', ''i want to create a task drink water'',
      ''can you first list the projects sot hat i can choose'', ''the'', ''a'', ''an'', ''and'',
      ''or'', ''but'', ''with'', ''without'', ''please'', ''help'']"

text \<open>The two tests after which the loop over the matches goes on to the next match.\<close>

definition skippedProjectName :: "string \<Rightarrow> bool" where
  "skippedProjectName n =
     (let l = toLowerCase n
      in includesStr l ''workspace'' \<or> includesStr l ''wokspace'' \<or>
         list_ex (\<lambda>word. includesStr l word) skipWords \<or>
         startsWith l ''i want to'' \<or> startsWith l ''can you'')"

definition projectRound ::
  "env \<Rightarrow> string \<Rightarrow> session_context \<times> bool \<Rightarrow> nat \<Rightarrow> session_context \<times> bool" where
  "projectRound E safeMessage st i =
     (case find (\<lambda>g. g \<noteq> [] \<and> \<not> skippedProjectName (trim g)) (matchAllProject E i safeMessage) of
        None \<Rightarrow> st
      | Some g \<Rightarrow>
          ((fst st)\<lparr>projectSlug := Some (JStr (slugOf (trim g))),
                    projectName := Some (JStr (trim g))\<rparr>, True))"

text \<open>The context after the loop over the seven workspace patterns.\<close>

definition extractWorkspace :: "env \<Rightarrow> string \<Rightarrow> session_context \<Rightarrow> session_context \<times> bool" where
  "extractWorkspace E msg context =
     foldl (workspaceRound E (safeMessageOf msg)) (context, False) [0..<7]"

definition extractContextFromMessage :: "env \<Rightarrow> string \<Rightarrow> session_context \<Rightarrow> session_context" where
  "extractContextFromMessage E msg context =
     (let st = foldl (projectRound E (safeMessageOf msg)) (extractWorkspace E msg context) [0..<6]
      in if snd st then (fst st)\<lparr>lastUpdated := now E\<rparr> else fst st)"

subsection \<open>A chat turn\<close>

record ChatRequestDto =
  message :: string
  sessionId :: "string option"
  history :: "(string \<times> string) list"
  currentOrganizationId :: "string option"

record action =
  aname :: string
  parameters :: obj

text \<open>
  The response; \<open>rmessage\<close> is its property \<^verbatim>\<open>message\<close> and \<open>aname\<close> above the
  property \<^verbatim>\<open>name\<close> of an action.
\<close>

record ChatResponseDto =
  rmessage :: string
  action :: "action option"
  success :: bool
  error :: "string option"

text \<open>
  \<^verbatim>\<open>x === y\<close> on two values that were not assigned from one another: arrays and
  objects are then different objects.
\<close>

definition strictEquals :: "json option \<Rightarrow> json option \<Rightarrow> bool" where
  "strictEquals x y =
     (x = y \<and> (case x of Some (JArr xs) \<Rightarrow> False | Some (JObj qs) \<Rightarrow> False | _ \<Rightarrow> True))"

text \<open>
  The block \<^verbatim>\<open>if (sessionContext) { ... }\<close> of lines 546 to 562. When the workspace
  slug has just been assigned from the context, the comparison that guards the project
  slug compares a value with itself.
\<close>

definition autoFill :: "session_context \<Rightarrow> string \<Rightarrow> obj \<Rightarrow> obj" where
  "autoFill sessionContext commandName ps =
     (let fillWorkspace =
            (commandName \<noteq> ''listWorkspaces'' \<and> commandName \<noteq> ''createWorkspace'' \<and>
             \<not> truthy (map_of ps ''workspaceSlug'') \<and> truthy (workspaceSlug sessionContext));
          ps1 = (if fillWorkspace
                 then AList.update ''workspaceSlug'' (the (workspaceSlug sessionContext)) ps
                 else ps)
      in if (includesStr commandName ''Task'' \<or> includesStr commandName ''Project'') \<and>
            \<not> truthy (map_of ps1 ''projectSlug'') \<and> truthy (projectSlug sessionContext) \<and>
            (fillWorkspace \<or>
             strictEquals (map_of ps1 ''workspaceSlug'') (workspaceSlug sessionContext))
         then AList.update ''projectSlug'' (the (projectSlug sessionContext)) ps1
         else ps1)"

text \<open>
  The three replies of the \<^verbatim>\<open>navigateToProject\<close> case. The source starts each with a
  pictograph, and writes the apostrophe of the second as U+2019; these code units are
  above 255 and left out here.
\<close>

definition foundMessage :: "string \<Rightarrow> string" where
  "foundMessage slug = '' Great! I found the project **'' @ slug @ ''**. Taking you there now.''"

definition closeMessage :: "string \<Rightarrow> string" where
  "closeMessage slug =
     '' I couldnt find an exact match, but I found something close: **'' @ slug @
     ''**. Navigating there for you.''"

definition notFoundMessage :: string where
  "notFoundMessage =
     '' I couldn'' @ [CHR 0x27] @ ''t find any project matching that name.'' @ [CHR 0x0A] @
     ''                  Try again with a different project name, or use **list all projects** to see what'' @
     [CHR 0x27] @ ''s available.''"

text \<open>The \<^verbatim>\<open>switch (commandName)\<close> of lines 565 to 592: the parameters and the reply.\<close>

definition resolveProjectSlug :: "env \<Rightarrow> string \<Rightarrow> obj \<Rightarrow> string \<Rightarrow> obj \<times> string" where
  "resolveProjectSlug E commandName ps aiMessage =
     (if commandName = ''navigateToProject'' then
        (case validateProjectSlug E (map_of ps ''projectSlug'') of
           (status, slug) \<Rightarrow>
             let ps1 = (if status = Exact \<or> status = Fuzzy
                        then AList.update ''projectSlug'' (JStr slug) ps else ps)
             in (case status of
                   Exact \<Rightarrow> (ps1, foundMessage slug)
                 | Fuzzy \<Rightarrow> (ps1, closeMessage slug)
                 | Not_found \<Rightarrow> (AList.update ''projectSlug'' (JStr []) ps1, notFoundMessage)))
      else (ps, aiMessage))"

text \<open>
  Lines 480 to 614 of \<^verbatim>\<open>chat\<close>: from the reply of the model to the response, with
  the session context as the turn leaves it. Every exception raised here is caught by
  the inner \<^verbatim>\<open>catch\<close>, which only logs it.
\<close>

definition resolveCommand ::
  "env \<Rightarrow> session_context \<Rightarrow> string \<Rightarrow> ChatResponseDto \<times> session_context" where
  "resolveCommand E sessionContext aiMessage =
     (case commandMatch aiMessage of
        None \<Rightarrow> (\<lparr>rmessage = aiMessage, action = None, success = True, error = None\<rparr>,
                 sessionContext)
      | Some (g1, g2) \<Rightarrow>
          let commandName = trim g1;
              parametersString = (if g2 = [] then ''{}'' else g2)
          in (case parseParameters (JSON_parse E) parametersString of
                None \<Rightarrow> (\<lparr>rmessage = aiMessage, action = None, success = True, error = None\<rparr>,
                         sessionContext)
              | Some ps \<Rightarrow>
                  (case validateCommandParameters (commands E) commandName ps of
                     Inl e \<Rightarrow>
                       (\<lparr>rmessage = aiMessage, action = None, success = True, error = None\<rparr>,
                        sessionContext)
                   | Inr validation \<Rightarrow>
                       if \<not> valid validation then
                         (\<lparr>rmessage = aiMessage @ [CHR 0x0A, CHR 0x0A] @
                             (if length (missing validation) > 0
                              then ''I need the following information to proceed: '' @
                                   join '', '' (missing validation) @ ''.''
                              else (case vmessage validation of
                                      None \<Rightarrow> ''undefined'' | Some m \<Rightarrow> m)),
                           action = None, success = True, error = None\<rparr>,
                          sessionContext)
                       else
                         (case resolveProjectSlug E commandName
                                 (autoFill sessionContext commandName ps) aiMessage of
                            (ps2, aiMessage2) \<Rightarrow>
                              (\<lparr>rmessage = aiMessage2,
                                action = Some \<lparr>aname = commandName, parameters = ps2\<rparr>,
                                success = True, error = None\<rparr>,
                               (case updateContextFromCommand E commandName ps2 sessionContext of
                                  Inl e \<Rightarrow> sessionContext
                                | Inr c \<Rightarrow> c))))))"

text \<open>\<^verbatim>\<open>chatRequest.sessionId || 'default'\<close>\<close>

definition sessionIdOf :: "ChatRequestDto \<Rightarrow> string" where
  "sessionIdOf req =
     (case sessionId req of None \<Rightarrow> ''default'' | Some s \<Rightarrow> if s = [] then ''default'' else s)"

text \<open>
  Lines 301 to 478 of \<^verbatim>\<open>chat\<close>: the settings, the session context, the endpoint
  guard, the heuristic extraction from the user's message and the call of the provider.
  The result is the map of contexts as these lines leave it, with either the exception
  thrown or the session id, the session context and the reply of the model.
\<close>

definition requestReply ::
  "env \<Rightarrow> store \<Rightarrow> ChatRequestDto \<Rightarrow> string \<Rightarrow>
   store \<times> (exception + string \<times> session_context \<times> string)" where
  "requestReply E contexts req userId =
     (if settingsGet E ''ai_enabled'' userId None \<noteq> Some ''true'' then
        (contexts,
         Inl (BadRequestException ''AI chat is currently disabled. Please enable it in settings.''))
      else
        let slugs = findAllSlugs E (case currentOrganizationId req of None \<Rightarrow> [] | Some i \<Rightarrow> i);
            sid = sessionIdOf req;
            sessionContext =
              (case contexts sid of
                 None \<Rightarrow> \<lparr>workspaceSlug = None, workspaceName = None, projectSlug = None,
                          projectName = None, lastUpdated = now E,
                          currentWorkSpaceProjectSlug = None\<rparr>
               | Some c \<Rightarrow> c);
            contexts1 = contexts(sid \<mapsto> sessionContext);
            apiKey = settingsGet E ''ai_api_key'' userId None;
            model = settingsGet E ''ai_model'' userId (Some ''deepseek/deepseek-chat-v3-0324:free'');
            rawApiUrl = settingsGet E ''ai_api_url'' userId (Some ''https://openrouter.ai/api/v1'')
        in (case (case rawApiUrl of
                    None \<Rightarrow> Inr ''https://openrouter.ai/api/v1''
                  | Some raw \<Rightarrow> if raw = [] then Inr ''https://openrouter.ai/api/v1''
                                else validateApiUrl (parseUrl E) raw) of
              Inl e \<Rightarrow> (contexts1, Inl e)
            | Inr apiUrl \<Rightarrow>
                let provider = detectProvider (parseUrl E) apiUrl
                in (case apiKey of
                      None \<Rightarrow> (contexts1, Inl (BadRequestException
                                 ''AI API key not configured. Please set it in settings.''))
                    | Some key \<Rightarrow>
                        if key = [] then
                          (contexts1, Inl (BadRequestException
                             ''AI API key not configured. Please set it in settings.''))
                        else
                          let context1 = extractContextFromMessage E (message req) sessionContext;
                              contexts2 = contexts1(sid \<mapsto> context1)
                          in (case callProvider E provider apiUrl key model sessionContext slugs
                                     (history req) (message req) of
                                Inl e \<Rightarrow> (contexts2, Inl e)
                              | Inr aiMessage \<Rightarrow> (contexts2, Inr (sid, context1, aiMessage))))))"

text \<open>The outer \<^verbatim>\<open>catch\<close>: the response for an exception with the given message.\<close>

definition failureResponse :: "string \<Rightarrow> ChatResponseDto" where
  "failureResponse errorMessage =
     (if includesStr errorMessage ''Failed to fetch'' \<or> includesStr errorMessage ''NetworkError''
      then \<lparr>rmessage = [], action = None, success = False,
            error = Some ''Network error. Please check your internet connection.''\<rparr>
      else \<lparr>rmessage = [], action = None, success = False,
            error = Some (if errorMessage = [] then ''Failed to process chat request''
                          else errorMessage)\<rparr>)"

text \<open>\<^verbatim>\<open>chat(chatRequest, userId)\<close> on the map \<open>contexts\<close>: the response and the map.\<close>

definition chat :: "env \<Rightarrow> store \<Rightarrow> ChatRequestDto \<Rightarrow> string \<Rightarrow> ChatResponseDto \<times> store" where
  "chat E contexts req userId =
     (case requestReply E contexts req userId of
        (contexts1, Inl e) \<Rightarrow> (failureResponse (exceptionMessage e), contexts1)
      | (contexts1, Inr (sid, sessionContext, aiMessage)) \<Rightarrow>
          (case resolveCommand E sessionContext aiMessage of
             (response, context1) \<Rightarrow> (response, contexts1(sid \<mapsto> context1))))"

subsection \<open>Predicates of the statements\<close>

text \<open>
  The project fields of a context are cleared, or they are the name that one of the six
  project patterns finds in the text \<open>m\<close> and its slug.
\<close>

definition clearedOrNamed :: "env \<Rightarrow> string \<Rightarrow> session_context \<Rightarrow> bool" where
  "clearedOrNamed E m c =
     (projectSlug c = None \<and> projectName c = None \<or>
      (\<exists>j < 6. \<exists>h \<in> set (matchAllProject E j m).
         projectSlug c = Some (JStr (slugOf (trim h))) \<and> projectName c = Some (JStr (trim h))))"

subsection \<open>An example environment\<close>

text \<open>
  Concrete values for the parameters of the model, on which the theorems below are
  instantiated. The grammar has the commands the system prompt of the service gives
  examples of, and one command whose workspace slug is optional.
\<close>

definition exampleUrl :: "string \<Rightarrow> url option" where
  "exampleUrl s =
     (if s = ''https://openrouter.ai/api/v1'' then
        Some \<lparr>protocol = ''https:'', hostname = ''openrouter.ai'', port = None,
              href = ''https://openrouter.ai/api/v1''\<rparr>
      else if s = ''https://api.openai.com/v1/'' then
        Some \<lparr>protocol = ''https:'', hostname = ''api.openai.com'', port = None,
              href = ''https://api.openai.com/v1/''\<rparr>
      else if s = ''http://api.openai.com'' then
        Some \<lparr>protocol = ''http:'', hostname = ''api.openai.com'', port = None,
              href = ''http://api.openai.com/''\<rparr>
      else if s = ''http://generativelanguage.googleapis.com/v1beta'' then
        Some \<lparr>protocol = ''http:'', hostname = ''generativelanguage.googleapis.com'', port = None,
              href = ''http://generativelanguage.googleapis.com/v1beta''\<rparr>
      else if s = ''https://generativelanguage.googleapis.com/v1beta'' then
        Some \<lparr>protocol = ''https:'', hostname = ''generativelanguage.googleapis.com'', port = None,
              href = ''https://generativelanguage.googleapis.com/v1beta''\<rparr>
      else None)"

text \<open>
  The values of \<^verbatim>\<open>JSON.parse\<close> on the payloads of the examples; every other text is
  taken not to parse. The second payload is the first without its last character, the
  third is the second with two closing braces.
\<close>

definition exampleParse :: "string \<Rightarrow> obj option" where
  "exampleParse s =
     (if s = ''{}'' then Some []
      else if s = ''{\"taskTitle\":\"a{b\"}'' then Some [(''taskTitle'', JStr ''a{b'')]
      else if s = ''{\"workspaceSlug\":\"w1\"}'' then Some [(''workspaceSlug'', JStr ''w1'')]
      else if s = ''{\"workspaceSlug\":\"w2\"}'' then Some [(''workspaceSlug'', JStr ''w2'')]
      else if s = ''{\"workspaceSlug\":\"w1\",\"projectSlug\":\"nope\"}''
        then Some [(''workspaceSlug'', JStr ''w1''), (''projectSlug'', JStr ''nope'')]
      else if s = ''{\"workspaceSlug\":\"w1\",\"projectSlug\":\"p1\",\"taskTitle\":0}''
        then Some [(''workspaceSlug'', JStr ''w1''), (''projectSlug'', JStr ''p1''),
                   (''taskTitle'', JNum 0)]
      else None)"

text \<open>The reply of the model to the user's message, for a few messages.\<close>

definition exampleReply :: "string \<Rightarrow> string" where
  "exampleReply msg =
     (if msg = ''take me to w1'' then
        ''Going there. [COMMAND: navigateToWorkspace] {\"workspaceSlug\":\"w1\"}''
      else if msg = ''take me to w2'' then
        ''Going there. [COMMAND: navigateToWorkspace] {\"workspaceSlug\":\"w2\"}''
      else if msg = ''open it'' then ''Opening. [COMMAND: navigateToWorkspace] {}''
      else if msg = ''list projects'' then ''Here they are. [COMMAND: listProjects] {}''
      else if msg = ''open nope'' then
        ''[COMMAND: navigateToProject] {\"workspaceSlug\":\"w1\",\"projectSlug\":\"nope\"}''
      else if msg = ''add a task'' then ''Adding. [COMMAND: createTask] {\"taskTitle\": oops''
      else ''Hello.'')"

text \<open>
  The first groups that the seven workspace patterns and the six project patterns find in
  the messages of the examples, by the index of the pattern. The last workspace pattern
  finds the name after the words take me to; the first finds the quoted name after the
  words use workspace, and the sixth the word before the word workspace. The fourth
  project pattern finds the word before the word project. The other messages of the
  examples have no match.
\<close>

definition exampleWorkspaceMatches :: "nat \<Rightarrow> string \<Rightarrow> string list" where
  "exampleWorkspaceMatches i s =
     (if i = 6 \<and> s = ''take me to w1'' then [''w1'']
      else if i = 6 \<and> s = ''take me to w2'' then [''w2'']
      else if i = 0 \<and> s = ''use workspace \"w2\"'' then [''w2'']
      else if i = 5 \<and> s = ''use workspace \"w2\"'' then [''use'']
      else if i = 5 \<and> s = ''w2 workspace, no project'' then [''w2'']
      else [])"

definition exampleProjectMatches :: "nat \<Rightarrow> string \<Rightarrow> string list" where
  "exampleProjectMatches i s =
     (if i = 3 \<and> s = ''list projects'' then [''list'']
      else if i = 3 \<and> s = ''w2 workspace, no project'' then [''no'']
      else [])"

definition exampleEnv :: env where
  "exampleEnv =
     \<lparr>commands =
        [\<lparr>name = ''listWorkspaces'', params = []\<rparr>,
         \<lparr>name = ''navigateToWorkspace'', params = [''workspaceSlug'']\<rparr>,
         \<lparr>name = ''navigateToProject'', params = [''workspaceSlug'', ''projectSlug'']\<rparr>,
         \<lparr>name = ''createTask'', params = [''workspaceSlug'', ''projectSlug'', ''taskTitle'']\<rparr>,
         \<lparr>name = ''listProjects'', params = [''workspaceSlug?'']\<rparr>],
      settingsGet = (\<lambda>key userId default.
        if key = ''ai_enabled'' then Some ''true''
        else if key = ''ai_api_key'' then Some ''sk-example'' else default),
      findAllSlugs = (\<lambda>org. [''w1'', ''w2'']),
      getIdBySlug = (\<lambda>slug. None),
      getAllSlugsByWorkspaceId = (\<lambda>i. []),
      validateProjectSlug = (\<lambda>slug. (Not_found, [])),
      parseUrl = exampleUrl,
      JSON_parse = exampleParse,
      matchAllWorkspace = exampleWorkspaceMatches,
      matchAllProject = exampleProjectMatches,
      callProvider = (\<lambda>provider apiUrl apiKey model context slugs hist msg. Inr (exampleReply msg)),
      now = 0\<rparr>"

definition exampleRequest :: "string \<Rightarrow> ChatRequestDto" where
  "exampleRequest msg =
     \<lparr>message = msg, sessionId = None, history = [], currentOrganizationId = None\<rparr>"

definition exampleContext :: session_context where
  "exampleContext =
     \<lparr>workspaceSlug = Some (JStr ''w1''), workspaceName = Some (JStr ''w1''),
      projectSlug = Some (JStr ''p1''), projectName = Some (JStr ''p1''), lastUpdated = 0,
      currentWorkSpaceProjectSlug = None\<rparr>"


section \<open>The endpoint guard\<close>

lemmas url_simps = validateApiUrl_def normalizedHost_def toLowerCase_def upperCaseLetters_def
  lowerCaseLetters_def stripBrackets_def startsWith_def endsWith_def allowedHosts_def isInternalHost_def
  private172_def uniqueLocal_def linkLocal_def effectivePort_def googlePattern_def azurePattern_def
  awsBedrockPattern_def labelThen_def isLabel_def hostAllowed_def stripTrailingSlash_def exampleUrl_def

lemma validateApiUrl_Inr:
  "validateApiUrl parse apiUrl = Inr r \<Longrightarrow>
     \<exists>u. parse apiUrl = Some u \<and> protocol u = ''https:'' \<and> effectivePort u = 443 \<and>
         hostAllowed (normalizedHost u) \<and> \<not> isInternalHost (normalizedHost u) \<and>
         r = stripTrailingSlash (href u)"
  by (auto simp: validateApiUrl_def hostAllowed_def Let_def split: option.splits if_splits)

lemma validateApiUrl_Inl:
  "validateApiUrl parse apiUrl = Inl e \<Longrightarrow> \<exists>m. e = BadRequestException m"
  by (auto simp: validateApiUrl_def Let_def split: option.splits if_splits)

lemma validateApiUrl_cases:
  "(\<exists>e. validateApiUrl parse apiUrl = Inl e) \<or> (\<exists>r. validateApiUrl parse apiUrl = Inr r)"
  by (cases "validateApiUrl parse apiUrl") auto

lemma requestReply_guard_fails:
  assumes "settingsGet E ''ai_api_url'' userId (Some ''https://openrouter.ai/api/v1'') = Some raw"
    and "raw \<noteq> []" and "validateApiUrl (parseUrl E) raw = Inl e"
  shows "\<exists>cs e'. requestReply (E\<lparr>callProvider := f\<rparr>) contexts req userId = (cs, Inl e') \<and>
           requestReply E contexts req userId = (cs, Inl e')"
  using assms by (simp add: requestReply_def Let_def cong: option.case_cong)

lemma chat_guard_fails:
  assumes "settingsGet E ''ai_api_url'' userId (Some ''https://openrouter.ai/api/v1'') = Some raw"
    and "raw \<noteq> []" and "validateApiUrl (parseUrl E) raw = Inl e"
  shows "\<not> success (fst (chat E contexts req userId)) \<and>
         chat (E\<lparr>callProvider := f\<rparr>) contexts req userId = chat E contexts req userId"
proof -
  from requestReply_guard_fails[OF assms, where f=f and contexts=contexts and req=req] obtain cs e'
    where a: "requestReply (E\<lparr>callProvider := f\<rparr>) contexts req userId = (cs, Inl e')"
      and b: "requestReply E contexts req userId = (cs, Inl e')" by blast
  show ?thesis by (simp add: chat_def a b failureResponse_def)
qed

text \<open>
  Claim C1. A URL that \<^verbatim>\<open>validateApiUrl\<close> accepts has the scheme https, the port 443,
  a host of the allow-set (the listed hosts and the three patterns) and no loopback,
  link-local or private host; the result is the URL without a trailing slash. A URL that
  does not parse, or that breaks one of the four conditions, is rejected with a
  \<^verbatim>\<open>BadRequestException\<close>; \<^verbatim>\<open>http://api.openai.com\<close>, whose host is allowed, is rejected for
  its scheme. In \<^verbatim>\<open>chat\<close> a rejected endpoint ends the turn without success, and the
  response and the contexts are the same whatever the provider would have answered: the
  provider is not called.
\<close>

theorem validateApiUrl_guard:
  "(validateApiUrl parse apiUrl = Inr r \<longrightarrow>
      (\<exists>u. parse apiUrl = Some u \<and> protocol u = ''https:'' \<and> effectivePort u = 443 \<and>
           hostAllowed (normalizedHost u) \<and> \<not> isInternalHost (normalizedHost u) \<and>
           r = stripTrailingSlash (href u))) \<and>
   (parse apiUrl = None \<or>
    (\<exists>u. parse apiUrl = Some u \<and>
       (protocol u \<noteq> ''https:'' \<or> effectivePort u \<noteq> 443 \<or>
        \<not> hostAllowed (normalizedHost u) \<or> isInternalHost (normalizedHost u))) \<longrightarrow>
      (\<exists>m. validateApiUrl parse apiUrl = Inl (BadRequestException m))) \<and>
   (parse ''http://api.openai.com'' = Some u0 \<and> protocol u0 = ''http:'' \<and>
    hostname u0 = ''api.openai.com'' \<longrightarrow>
      hostAllowed (normalizedHost u0) \<and>
      validateApiUrl parse ''http://api.openai.com'' =
        Inl (BadRequestException ''Only HTTPS URLs allowed'')) \<and>
   (settingsGet E ''ai_api_url'' userId (Some ''https://openrouter.ai/api/v1'') = Some raw \<and>
    raw \<noteq> [] \<and> validateApiUrl (parseUrl E) raw = Inl e \<longrightarrow>
      \<not> success (fst (chat E contexts req userId)) \<and>
      chat (E\<lparr>callProvider := f\<rparr>) contexts req userId = chat E contexts req userId)"
proof (intro conjI impI)
  assume "validateApiUrl parse apiUrl = Inr r"
  then show "\<exists>u. parse apiUrl = Some u \<and> protocol u = ''https:'' \<and> effectivePort u = 443 \<and>
           hostAllowed (normalizedHost u) \<and> \<not> isInternalHost (normalizedHost u) \<and>
           r = stripTrailingSlash (href u)"
    by (rule validateApiUrl_Inr)
next
  assume v: "parse apiUrl = None \<or>
    (\<exists>u. parse apiUrl = Some u \<and>
       (protocol u \<noteq> ''https:'' \<or> effectivePort u \<noteq> 443 \<or>
        \<not> hostAllowed (normalizedHost u) \<or> isInternalHost (normalizedHost u)))"
  have "\<not> (\<exists>r. validateApiUrl parse apiUrl = Inr r)"
  proof
    assume "\<exists>r. validateApiUrl parse apiUrl = Inr r"
    then obtain r where "validateApiUrl parse apiUrl = Inr r" ..
    from validateApiUrl_Inr[OF this] v show False by auto
  qed
  with validateApiUrl_cases[of parse apiUrl] obtain e where "validateApiUrl parse apiUrl = Inl e"
    by blast
  with validateApiUrl_Inl[OF this] show "\<exists>m. validateApiUrl parse apiUrl = Inl (BadRequestException m)"
    by auto
next
  assume a: "parse ''http://api.openai.com'' = Some u0 \<and> protocol u0 = ''http:'' \<and>
    hostname u0 = ''api.openai.com''"
  then show "hostAllowed (normalizedHost u0)"
    by (simp add: hostAllowed_def normalizedHost_def toLowerCase_def upperCaseLetters_def
        lowerCaseLetters_def stripBrackets_def startsWith_def allowedHosts_def)
  from a show "validateApiUrl parse ''http://api.openai.com'' =
        Inl (BadRequestException ''Only HTTPS URLs allowed'')"
    by (simp add: validateApiUrl_def)
next
  assume a: "settingsGet E ''ai_api_url'' userId (Some ''https://openrouter.ai/api/v1'') = Some raw \<and>
    raw \<noteq> [] \<and> validateApiUrl (parseUrl E) raw = Inl e"
  then show  "\<not> success (fst (chat E contexts req userId))"
    using chat_guard_fails[where E=E and userId=userId and raw=raw and e=e and contexts=contexts and req=req] by blast
  from a show "chat (E\<lparr>callProvider := f\<rparr>) contexts req userId = chat E contexts req userId"
    using chat_guard_fails[where E=E and userId=userId and raw=raw and e=e and contexts=contexts and req=req and f=f] by blast
qed

theorem validateApiUrl_guard_witness:
  "validateApiUrl exampleUrl ''https://api.openai.com/v1/'' = Inr ''https://api.openai.com/v1'' \<and>
   (\<exists>u. exampleUrl ''https://api.openai.com/v1/'' = Some u \<and> protocol u = ''https:'' \<and>
        effectivePort u = 443 \<and> hostAllowed (normalizedHost u) \<and>
        \<not> isInternalHost (normalizedHost u)) \<and>
   validateApiUrl exampleUrl ''not a url'' = Inl (BadRequestException ''Invalid URL format'') \<and>
   validateApiUrl exampleUrl ''http://api.openai.com'' =
     Inl (BadRequestException ''Only HTTPS URLs allowed'') \<and>
   \<not> success (fst (chat (exampleEnv\<lparr>settingsGet := (\<lambda>key userId default.
           if key = ''ai_api_url'' then Some ''http://api.openai.com''
           else settingsGet exampleEnv key userId default)\<rparr>)
         Map.empty \<lparr>message = ''hello'', sessionId = None, history = [],
                     currentOrganizationId = None\<rparr> ''u1''))"
proof -
  let ?E = "exampleEnv\<lparr>settingsGet := (\<lambda>key userId default.
           if key = ''ai_api_url'' then Some ''http://api.openai.com''
           else settingsGet exampleEnv key userId default)\<rparr>"
  let ?u = "\<lparr>protocol = ''http:'', hostname = ''api.openai.com'', port = None,
              href = ''http://api.openai.com/''\<rparr>"
  have ok: "validateApiUrl exampleUrl ''https://api.openai.com/v1/'' = Inr ''https://api.openai.com/v1''"
    by (simp add: url_simps)
  have none: "exampleUrl ''not a url'' = None"
    by (simp add: exampleUrl_def)
  have http: "exampleUrl ''http://api.openai.com'' = Some ?u"
    by (simp add: exampleUrl_def)
  have raw: "settingsGet ?E ''ai_api_url'' ''u1'' (Some ''https://openrouter.ai/api/v1'') =
      Some ''http://api.openai.com''"
    by simp
  have bad: "validateApiUrl (parseUrl ?E) ''http://api.openai.com'' =
      Inl (BadRequestException ''Only HTTPS URLs allowed'')"
    by (simp add: exampleEnv_def url_simps)
  note g1 = validateApiUrl_guard[where parse = exampleUrl and apiUrl = "''https://api.openai.com/v1/''"
      and r = "''https://api.openai.com/v1''"]
  note g2 = validateApiUrl_guard[where parse = exampleUrl and apiUrl = "''not a url''"]
  note g3 = validateApiUrl_guard[where parse = exampleUrl and ?u0.0 = ?u and E = ?E and userId = "''u1''"
      and raw = "''http://api.openai.com''" and e = "BadRequestException ''Only HTTPS URLs allowed''"
      and contexts = Map.empty
      and req = "\<lparr>message = ''hello'', sessionId = None, history = [], currentOrganizationId = None\<rparr>"]
  from g1 ok have c1: "\<exists>u. exampleUrl ''https://api.openai.com/v1/'' = Some u \<and> protocol u = ''https:'' \<and>
        effectivePort u = 443 \<and> hostAllowed (normalizedHost u) \<and>
        \<not> isInternalHost (normalizedHost u)" by blast
  from g2 none have "\<exists>m. validateApiUrl exampleUrl ''not a url'' = Inl (BadRequestException m)"
    by blast
  then have c2: "validateApiUrl exampleUrl ''not a url'' = Inl (BadRequestException ''Invalid URL format'')"
    by (simp add: validateApiUrl_def none)
  from g3 http have c3: "validateApiUrl exampleUrl ''http://api.openai.com'' =
     Inl (BadRequestException ''Only HTTPS URLs allowed'')" by simp
  from g3 raw bad have c4: "\<not> success (fst (chat ?E Map.empty
      \<lparr>message = ''hello'', sessionId = None, history = [], currentOrganizationId = None\<rparr> ''u1''))"
    by blast
  from ok c1 c2 c3 c4 show ?thesis by blast
qed

text \<open>
  Claim C10, as the code has it. Every URL whose host name is
  \<^verbatim>\<open>generativelanguage.googleapis.com\<close> is rejected, although the host is in
  \<^verbatim>\<open>allowedHosts\<close> and \<^verbatim>\<open>detectProvider\<close> classifies it as google: the last check knows
  Google hosts by \<^verbatim>\<open>googlePattern\<close> only, which this host does not match. The
  exception is \<^verbatim>\<open>Unsupported AI provider host\<close> when the scheme is https and the port
  is 443; a URL with another scheme or port is rejected by the earlier check of the
  scheme or of the port, with that check's message.
\<close>

theorem validateApiUrl_gemini:
  assumes "parse apiUrl = Some u" and "hostname u = ''generativelanguage.googleapis.com''"
  shows "(\<exists>m. validateApiUrl parse apiUrl = Inl (BadRequestException m)) \<and>
         (protocol u = ''https:'' \<and> effectivePort u = 443 \<longrightarrow>
            validateApiUrl parse apiUrl = Inl (BadRequestException ''Unsupported AI provider host'')) \<and>
         (protocol u \<noteq> ''https:'' \<longrightarrow>
            validateApiUrl parse apiUrl = Inl (BadRequestException ''Only HTTPS URLs allowed'')) \<and>
         (protocol u = ''https:'' \<and> effectivePort u \<noteq> 443 \<longrightarrow>
            validateApiUrl parse apiUrl =
              Inl (BadRequestException ''Only standard HTTPS port 443 is allowed'')) \<and>
         List.member allowedHosts (normalizedHost u) \<and> \<not> googlePattern (normalizedHost u) \<and>
         detectProvider parse apiUrl = ''google''"
proof -
  have h: "normalizedHost u = ''generativelanguage.googleapis.com''"
    using assms(2) by (simp add: normalizedHost_def toLowerCase_def upperCaseLetters_def
        lowerCaseLetters_def stripBrackets_def startsWith_def)
  have a: "List.member allowedHosts ''generativelanguage.googleapis.com''"
    by (simp add: allowedHosts_def)
  have g: "\<not> googlePattern ''generativelanguage.googleapis.com''"
    by (simp add: googlePattern_def labelThen_def endsWith_def)
  have i: "\<not> isInternalHost ''generativelanguage.googleapis.com''"
    by (simp add: isInternalHost_def startsWith_def private172_def uniqueLocal_def linkLocal_def)
  have d: "detectProvider parse apiUrl = ''google''"
    using assms by (simp add: detectProvider_def endsWith_def)
  show ?thesis
    using assms(1) h a g i d by (auto simp: validateApiUrl_def Let_def)
qed

theorem validateApiUrl_gemini_witness:
  "exampleUrl ''https://generativelanguage.googleapis.com/v1beta'' =
     Some \<lparr>protocol = ''https:'', hostname = ''generativelanguage.googleapis.com'', port = None,
           href = ''https://generativelanguage.googleapis.com/v1beta''\<rparr> \<and>
   validateApiUrl exampleUrl ''https://generativelanguage.googleapis.com/v1beta'' =
     Inl (BadRequestException ''Unsupported AI provider host'') \<and>
   detectProvider exampleUrl ''https://generativelanguage.googleapis.com/v1beta'' = ''google''"
proof -
  let ?u = "\<lparr>protocol = ''https:'', hostname = ''generativelanguage.googleapis.com'', port = None,
           href = ''https://generativelanguage.googleapis.com/v1beta''\<rparr>"
  have p: "exampleUrl ''https://generativelanguage.googleapis.com/v1beta'' = Some ?u"
    by (simp add: exampleUrl_def)
  have h: "hostname ?u = ''generativelanguage.googleapis.com''" by simp
  have s: "protocol ?u = ''https:'' \<and> effectivePort ?u = 443" by (simp add: effectivePort_def)
  from validateApiUrl_gemini[where parse = exampleUrl and u = ?u, OF p h] s p show ?thesis by blast
qed

text \<open>
  The claim C10 as the specification words it has every such URL rejected with
  \<^verbatim>\<open>Unsupported AI provider host\<close>; with the scheme http the exception is that of the
  scheme check.
\<close>

theorem validateApiUrl_gemini_counterexample:
  "validateApiUrl exampleUrl ''http://generativelanguage.googleapis.com/v1beta'' =
     Inl (BadRequestException ''Only HTTPS URLs allowed'') \<and>
   ''Only HTTPS URLs allowed'' \<noteq> ''Unsupported AI provider host'' \<and>
   (\<exists>u. exampleUrl ''http://generativelanguage.googleapis.com/v1beta'' = Some u \<and>
        hostname u = ''generativelanguage.googleapis.com'')"
  by (simp add: url_simps)

section \<open>The parameter validator\<close>

lemmas string_simps = trim_def isWhiteSpace_def startsWith_def endsWith_def toString_def showInt_def

lemma falsy_iff:
  "\<not> truthy v \<longleftrightarrow> v \<in> {None, Some JNull, Some (JBool False), Some (JNum 0), Some (JStr [])}"
  by (cases v rule: truthy.cases) auto

lemma toString_throws_iff:
  "(\<exists>e. toString v = Inl e) \<longleftrightarrow> (\<exists>j. v = Some j \<and> stringThrows j)"
  by (cases v) (auto simp: toString_def)

lemma isMissing_True_iff:
  "isMissing ps p = Inr True \<longleftrightarrow>
     \<not> truthy (map_of ps p) \<or> (\<exists>s. toString (map_of ps p) = Inr s \<and> trim s = [])"
  by (cases "toString (map_of ps p)") (auto simp: isMissing_def)

lemma isMissing_throws_iff:
  "(\<exists>e. isMissing ps p = Inl e) \<longleftrightarrow>
     truthy (map_of ps p) \<and> (\<exists>e. toString (map_of ps p) = Inl e)"
  by (cases "toString (map_of ps p)") (auto simp: isMissing_def)

lemma filterMissing_throws_iff:
  "(\<exists>e. filterMissing ps xs = Inl e) \<longleftrightarrow> (\<exists>p \<in> set xs. \<exists>e. isMissing ps p = Inl e)"
proof (induction xs)
  case Nil
  show ?case by simp
next
  case (Cons x xs)
  show ?case
  proof (cases "isMissing ps x")
    case (Inl e)
    then show ?thesis by auto
  next
    case (Inr b)
    with Cons.IH show ?thesis
      by (cases "filterMissing ps xs") auto
  qed
qed

lemma filterMissing_returns:
  "filterMissing ps xs = Inr ms \<Longrightarrow> ms = filter (\<lambda>p. isMissing ps p = Inr True) xs"
proof (induction xs arbitrary: ms)
  case Nil
  then show ?case by simp
next
  case (Cons x xs)
  from Cons.prems obtain b ms' where b: "isMissing ps x = Inr b"
    and r: "filterMissing ps xs = Inr ms'" and m: "ms = (if b then x # ms' else ms')"
    by (auto split: sum.splits)
  from Cons.IH[OF r] b m show ?case by simp
qed

lemma validate_unknown:
  assumes "find (\<lambda>cmd. name cmd = commandName) cmds = None"
  shows "validateCommandParameters cmds commandName ps =
           Inr \<lparr>valid = False, missing = [], vmessage = Some (''Unknown command: '' @ commandName)\<rparr>"
  using assms by (simp add: validateCommandParameters_def)

lemma validate_throws_iff:
  assumes "find (\<lambda>cmd. name cmd = commandName) cmds = Some c"
  shows "(\<exists>e. validateCommandParameters cmds commandName ps = Inl e) \<longleftrightarrow>
         (\<exists>p \<in> set (params c). \<not> endsWith p ''?'' \<and> truthy (map_of ps p) \<and>
            (\<exists>e. toString (map_of ps p) = Inl e))"
proof -
  have "(\<exists>e. validateCommandParameters cmds commandName ps = Inl e) \<longleftrightarrow>
        (\<exists>e. filterMissing ps (filter (\<lambda>p. \<not> endsWith p ''?'') (params c)) = Inl e)"
    using assms
    by (cases "filterMissing ps (filter (\<lambda>p. \<not> endsWith p ''?'') (params c))")
      (simp_all add: validateCommandParameters_def Let_def)
  then show ?thesis
    by (auto simp: filterMissing_throws_iff isMissing_throws_iff)
qed

lemma validate_returns:
  assumes "find (\<lambda>cmd. name cmd = commandName) cmds = Some c"
    and "validateCommandParameters cmds commandName ps = Inr r"
  shows "missing r = filter (\<lambda>p. \<not> endsWith p ''?'' \<and> isMissing ps p = Inr True) (params c) \<and>
         (valid r \<longleftrightarrow> missing r = [])"
proof -
  from assms obtain ms where
      f: "filterMissing ps (filter (\<lambda>p. \<not> endsWith p ''?'') (params c)) = Inr ms"
    by (cases "filterMissing ps (filter (\<lambda>p. \<not> endsWith p ''?'') (params c))")
      (simp_all add: validateCommandParameters_def Let_def)
  from filterMissing_returns[OF f]
  have m: "ms = filter (\<lambda>p. \<not> endsWith p ''?'' \<and> isMissing ps p = Inr True) (params c)"
    by (simp add: conj_commute)
  from assms f have "missing r = ms \<and> (valid r \<longleftrightarrow> ms = [])"
    by (auto simp: validateCommandParameters_def Let_def split: if_splits)
  with m show ?thesis by simp
qed

text \<open>
  Claim C4, as the code has it. For a name that is not in the grammar the validation fails
  with the message \<^verbatim>\<open>Unknown command\<close> and an empty list. For a command of the grammar
  the function throws exactly when some required parameter (one whose name does not end
  in a question mark) is truthy and its conversion to a string throws, as for an object
  that has a property \<^verbatim>\<open>toString\<close>. When it returns, it fails if and only if some required
  parameter is missing in the sense of the code, and the list returned has exactly these
  names, in the order of the grammar. Missing in the sense of the code is: falsy (absent,
  null, false, the number 0, the empty string), or with a string form that is blank
  after trimming.
\<close>

theorem validateCommandParameters_iff:
  "(find (\<lambda>cmd. name cmd = commandName) cmds = None \<longrightarrow>
      validateCommandParameters cmds commandName ps =
        Inr \<lparr>valid = False, missing = [],
             vmessage = Some (''Unknown command: '' @ commandName)\<rparr>) \<and>
   (find (\<lambda>cmd. name cmd = commandName) cmds = Some c \<longrightarrow>
      ((\<exists>e. validateCommandParameters cmds commandName ps = Inl e) \<longleftrightarrow>
         (\<exists>p \<in> set (params c). \<not> endsWith p ''?'' \<and> truthy (map_of ps p) \<and>
            (\<exists>e. toString (map_of ps p) = Inl e))) \<and>
      (validateCommandParameters cmds commandName ps = Inr r \<longrightarrow>
         (\<not> valid r \<longleftrightarrow>
            (\<exists>p \<in> set (params c). \<not> endsWith p ''?'' \<and> isMissing ps p = Inr True)) \<and>
         missing r =
           filter (\<lambda>p. \<not> endsWith p ''?'' \<and> isMissing ps p = Inr True) (params c))) \<and>
   (isMissing ps p = Inr True \<longleftrightarrow>
      map_of ps p \<in> {None, Some JNull, Some (JBool False), Some (JNum 0), Some (JStr [])} \<or>
      (\<exists>s. toString (map_of ps p) = Inr s \<and> trim s = [])) \<and>
   ((\<exists>e. toString v = Inl e) \<longleftrightarrow> (\<exists>j. v = Some j \<and> stringThrows j))"
proof (intro conjI impI)
  assume "find (\<lambda>cmd. name cmd = commandName) cmds = None"
  then show "validateCommandParameters cmds commandName ps =
        Inr \<lparr>valid = False, missing = [],
             vmessage = Some (''Unknown command: '' @ commandName)\<rparr>"
    by (rule validate_unknown)
next
  assume f: "find (\<lambda>cmd. name cmd = commandName) cmds = Some c"
  then show "(\<exists>e. validateCommandParameters cmds commandName ps = Inl e) \<longleftrightarrow>
         (\<exists>p \<in> set (params c). \<not> endsWith p ''?'' \<and> truthy (map_of ps p) \<and>
            (\<exists>e. toString (map_of ps p) = Inl e))"
    by (rule validate_throws_iff)
  assume r: "validateCommandParameters cmds commandName ps = Inr r"
  from validate_returns[OF f r]
  show "missing r =
      filter (\<lambda>p. \<not> endsWith p ''?'' \<and> isMissing ps p = Inr True) (params c)"
    by simp
  from validate_returns[OF f r]
  show "\<not> valid r \<longleftrightarrow>
      (\<exists>p \<in> set (params c). \<not> endsWith p ''?'' \<and> isMissing ps p = Inr True)"
    by (auto simp: filter_empty_conv)
next
  show "isMissing ps p = Inr True \<longleftrightarrow>
      map_of ps p \<in> {None, Some JNull, Some (JBool False), Some (JNum 0), Some (JStr [])} \<or>
      (\<exists>s. toString (map_of ps p) = Inr s \<and> trim s = [])"
    by (simp only: isMissing_True_iff falsy_iff)
next
  show "(\<exists>e. toString v = Inl e) \<longleftrightarrow> (\<exists>j. v = Some j \<and> stringThrows j)"
    by (rule toString_throws_iff)
qed

theorem validateCommandParameters_iff_witness:
  "validateCommandParameters (commands exampleEnv) ''deleteEverything'' [] =
     Inr \<lparr>valid = False, missing = [], vmessage = Some ''Unknown command: deleteEverything''\<rparr> \<and>
   (\<exists>r. validateCommandParameters (commands exampleEnv) ''createTask''
          [(''workspaceSlug'', JStr ''w1''), (''taskTitle'', JStr ''  '')] = Inr r \<and>
        \<not> valid r \<and> missing r = [''projectSlug'', ''taskTitle'']) \<and>
   isMissing [(''workspaceSlug'', JStr ''w1''), (''taskTitle'', JStr ''  '')] ''taskTitle'' = Inr True \<and>
   (\<exists>e. validateCommandParameters (commands exampleEnv) ''createTask''
          [(''workspaceSlug'', JObj [(''toString'', JNum 1)])] = Inl e) \<and>
   (\<exists>e. toString (Some (JObj [(''toString'', JNum 1)])) = Inl e)"
proof -
  let ?ps = "[(''workspaceSlug'', JStr ''w1''), (''taskTitle'', JStr ''  '')]"
  let ?o = "JObj [(''toString'', JNum 1)]"
  let ?qs = "[(''workspaceSlug'', ?o)]"
  let ?c = "\<lparr>name = ''createTask'', params = [''workspaceSlug'', ''projectSlug'', ''taskTitle'']\<rparr>"
  have n: "find (\<lambda>cmd. name cmd = ''deleteEverything'') (commands exampleEnv) = None"
    by (simp add: exampleEnv_def)
  have s: "find (\<lambda>cmd. name cmd = ''createTask'') (commands exampleEnv) = Some ?c"
    by (simp add: exampleEnv_def)
  have r: "validateCommandParameters (commands exampleEnv) ''createTask'' ?ps =
      Inr \<lparr>valid = False, missing = [''projectSlug'', ''taskTitle''],
           vmessage = Some ''Missing required parameters for createTask: projectSlug, taskTitle''\<rparr>"
    by (simp add: validateCommandParameters_def exampleEnv_def isMissing_def string_simps Let_def)
  let ?r = "\<lparr>valid = False, missing = [''projectSlug'', ''taskTitle''],
           vmessage = Some ''Missing required parameters for createTask: projectSlug, taskTitle''\<rparr>"
  note t1 = validateCommandParameters_iff[where cmds = "commands exampleEnv"
      and commandName = "''deleteEverything''" and ps = "[]", THEN conjunct1, rule_format, OF n]
  note t2 = validateCommandParameters_iff[where cmds = "commands exampleEnv"
      and commandName = "''createTask''" and ps = ?ps and c = ?c and r = ?r and p = "''taskTitle''"]
  note t2r = t2[THEN conjunct2, THEN conjunct1, rule_format, OF s, THEN conjunct2, rule_format, OF r]
  note t2m = t2[THEN conjunct2, THEN conjunct2, THEN conjunct1]
  note t3 = validateCommandParameters_iff[where cmds = "commands exampleEnv"
      and commandName = "''createTask''" and ps = ?qs and c = ?c and v = "Some ?o"]
  note t3t = t3[THEN conjunct2, THEN conjunct1, rule_format, OF s, THEN conjunct1]
  note t3s = t3[THEN conjunct2, THEN conjunct2, THEN conjunct2]
  have c1: "validateCommandParameters (commands exampleEnv) ''deleteEverything'' [] =
     Inr \<lparr>valid = False, missing = [], vmessage = Some ''Unknown command: deleteEverything''\<rparr>"
    using t1 by simp
  from t2r have v: "\<not> valid ?r" and m: "missing ?r = [''projectSlug'', ''taskTitle'']"
    by simp_all
  from r v m have c2: "\<exists>r. validateCommandParameters (commands exampleEnv) ''createTask'' ?ps = Inr r \<and>
        \<not> valid r \<and> missing r = [''projectSlug'', ''taskTitle'']" by blast
  have b: "toString (map_of ?ps ''taskTitle'') = Inr ''  '' \<and> trim ''  '' = []"
    by (simp add: string_simps)
  then have "\<exists>s. toString (map_of ?ps ''taskTitle'') = Inr s \<and> trim s = []" by blast
  with iffD2[OF t2m] have c3: "isMissing ?ps ''taskTitle'' = Inr True" by blast
  have "\<exists>j. Some ?o = Some j \<and> stringThrows j" by simp
  with iffD2[OF t3s] have th: "\<exists>e. toString (Some ?o) = Inl e" by blast
  have w: "''workspaceSlug'' \<in> set (params ?c) \<and> \<not> endsWith ''workspaceSlug'' ''?'' \<and>
      truthy (map_of ?qs ''workspaceSlug'') \<and> (\<exists>e. toString (map_of ?qs ''workspaceSlug'') = Inl e)"
    using th by (simp add: endsWith_def)
  then have "\<exists>p \<in> set (params ?c). \<not> endsWith p ''?'' \<and> truthy (map_of ?qs p) \<and>
      (\<exists>e. toString (map_of ?qs p) = Inl e)" by blast
  with iffD2[OF t3t]
  have c5: "\<exists>e. validateCommandParameters (commands exampleEnv) ''createTask'' ?qs = Inl e"
    by blast
  from c1 c2 c3 c5 th show ?thesis by blast
qed

text \<open>
  The claim C4 as the specification words it counts a parameter as missing only when it is
  absent or blank. With the title 0, all three required parameters of \<^verbatim>\<open>createTask\<close>
  are present and none is blank after trimming, and the validation fails on the title.
\<close>

theorem validateCommandParameters_zero_counterexample:
  "validateCommandParameters (commands exampleEnv) ''createTask''
       [(''workspaceSlug'', JStr ''w1''), (''projectSlug'', JStr ''p1''), (''taskTitle'', JNum 0)] =
     Inr \<lparr>valid = False, missing = [''taskTitle''],
          vmessage = Some ''Missing required parameters for createTask: taskTitle''\<rparr> \<and>
   toString (Some (JStr ''w1'')) = Inr ''w1'' \<and> trim ''w1'' = ''w1'' \<and>
   toString (Some (JStr ''p1'')) = Inr ''p1'' \<and> trim ''p1'' = ''p1'' \<and>
   toString (Some (JNum 0)) = Inr ''0'' \<and> trim ''0'' = ''0''"
proof -
  have v: "validateCommandParameters (commands exampleEnv) ''createTask''
       [(''workspaceSlug'', JStr ''w1''), (''projectSlug'', JStr ''p1''), (''taskTitle'', JNum 0)] =
     Inr \<lparr>valid = False, missing = [''taskTitle''],
          vmessage = Some ''Missing required parameters for createTask: taskTitle''\<rparr>"
    by (simp add: validateCommandParameters_def exampleEnv_def isMissing_def string_simps Let_def)
  have s: "toString (Some (JStr ''w1'')) = Inr ''w1''" "trim ''w1'' = ''w1''"
    "toString (Some (JStr ''p1'')) = Inr ''p1''" "trim ''p1'' = ''p1''"
    "toString (Some (JNum 0)) = Inr ''0''" "trim ''0'' = ''0''"
    by (simp_all add: string_simps)
  from v s show ?thesis by simp
qed

section \<open>The brace repair\<close>

lemma fold_braces:
  "fold (\<lambda>c n. if c = CHR ''{'' then n + 1 else if c = CHR ''}'' then n - 1 else n) s (a::int) =
   a + fold (\<lambda>c n. if c = CHR ''{'' then n + 1 else if c = CHR ''}'' then n - 1 else n) s 0"
proof (induction s arbitrary: a)
  case Nil
  show ?case by simp
next
  case (Cons c s)
  show ?case
    using Cons.IH[of "a + 1"] Cons.IH[of "a - 1"] Cons.IH[of 1] Cons.IH[of "- 1"] Cons.IH[of a]
    by simp
qed

lemma openBraces_append: "openBraces (s @ t) = openBraces s + openBraces t"
  unfolding openBraces_def by (simp add: fold_braces[symmetric])

lemma openBraces_closing: "openBraces (replicate n (CHR ''}'')) = - int n"
proof (induction n)
  case 0
  show ?case by (simp add: openBraces_def)
next
  case (Suc n)
  have "openBraces (replicate (Suc n) (CHR ''}'')) = openBraces (''}'' @ replicate n (CHR ''}''))"
    by simp
  also have "\<dots> = openBraces ''}'' + openBraces (replicate n (CHR ''}''))"
    by (rule openBraces_append)
  finally show ?case using Suc by (simp add: openBraces_def)
qed

text \<open>
  Claim C5, as the code has it. The repair counts every brace of the text, also those
  inside string values. For a payload whose opening and closing braces are equal in
  number over the whole text, as it is when no string value holds a brace, the text
  without its last \<open>n\<close> closing braces is repaired to the payload itself: the count is
  \<open>n\<close>, exactly \<open>n\<close> braces are appended, and when the cut text does not parse the
  result is what the payload parses to.
\<close>

theorem repairedJson_balanced:
  assumes "openBraces (s @ replicate n (CHR ''}'')) = 0"
  shows "openBraces s = int n \<and> repairedJson s = s @ replicate n (CHR ''}'') \<and>
         (parse s = None \<longrightarrow> parseParameters parse s = parse (s @ replicate n (CHR ''}'')))"
proof -
  from assms have o: "openBraces s = int n"
    by (simp add: openBraces_append openBraces_closing)
  then have r: "repairedJson s = s @ replicate n (CHR ''}'')"
    by (simp add: repairedJson_def)
  from o r show ?thesis by (simp add: parseParameters_def)
qed

theorem repairedJson_balanced_witness:
  "openBraces (''{\"workspaceSlug\":\"w1\"'' @ replicate 1 (CHR ''}'')) = 0 \<and>
   repairedJson ''{\"workspaceSlug\":\"w1\"'' = ''{\"workspaceSlug\":\"w1\"}'' \<and>
   parseParameters exampleParse ''{\"workspaceSlug\":\"w1\"'' = Some [(''workspaceSlug'', JStr ''w1'')]"
proof -
  have b: "openBraces (''{\"workspaceSlug\":\"w1\"'' @ replicate 1 (CHR ''}'')) = 0"
    by (simp add: openBraces_def)
  have n: "exampleParse ''{\"workspaceSlug\":\"w1\"'' = None"
    by (simp add: exampleParse_def)
  have p: "exampleParse ''{\"workspaceSlug\":\"w1\"}'' = Some [(''workspaceSlug'', JStr ''w1'')]"
    by (simp add: exampleParse_def)
  from repairedJson_balanced[OF b, where parse = exampleParse] n p b show ?thesis by simp
qed

text \<open>
  The claim C5 as the specification words it holds for every well-formed payload. The
  payload whose only property is the task title \<^verbatim>\<open>a{b\<close> is well formed; without its
  one closing brace the repair appends two, and the repaired text does not parse.
\<close>

theorem repairedJson_brace_in_string_counterexample:
  "exampleParse ''{\"taskTitle\":\"a{b\"}'' = Some [(''taskTitle'', JStr ''a{b'')] \<and>
   ''{\"taskTitle\":\"a{b\"'' @ replicate 1 (CHR ''}'') = ''{\"taskTitle\":\"a{b\"}'' \<and>
   repairedJson ''{\"taskTitle\":\"a{b\"'' = ''{\"taskTitle\":\"a{b\"}}'' \<and>
   parseParameters exampleParse ''{\"taskTitle\":\"a{b\"'' = None"
  by (simp add: exampleParse_def repairedJson_def openBraces_def parseParameters_def eval_nat_numeral)

section \<open>The command extractor\<close>

lemmas match_simps = commandMatch_def boldCommandAt_def closedCommandAt_def openCommandAt_def
  commandHead_def closedPayload_def openPayload_def

lemma firstMatch_skip:
  assumes "\<And>s. at (c # s) = None"
  shows "firstMatch at (replicate n c @ t) = firstMatch at t"
  by (induction n) (simp_all add: assms)

lemma firstMatch_none:
  assumes "\<And>s. at (c # s) = None" and "at [] = None"
  shows "firstMatch at (replicate n c) = None"
  by (induction n) (simp_all add: assms)

lemma commandMatch_skip: "commandMatch (replicate n (CHR ''a'') @ t) = commandMatch t"
proof -
  have b: "boldCommandAt (CHR ''a'' # s) = None" for s
    by (simp add: boldCommandAt_def startsWith_def)
  have c: "closedCommandAt (CHR ''a'' # s) = None" for s
    by (simp add: closedCommandAt_def startsWith_def)
  have d: "openCommandAt (CHR ''a'' # s) = None" for s
    by (simp add: openCommandAt_def startsWith_def)
  show ?thesis
    by (simp add: commandMatch_def firstMatch_skip[where at = boldCommandAt, OF b]
        firstMatch_skip[where at = closedCommandAt, OF c]
        firstMatch_skip[where at = openCommandAt, OF d] cong: option.case_cong)
qed

lemma commandMatch_filler: "commandMatch (replicate n (CHR ''a'')) = None"
proof -
  have b: "boldCommandAt (CHR ''a'' # s) = None" "boldCommandAt [] = None" for s
    by (simp_all add: boldCommandAt_def startsWith_def)
  have c: "closedCommandAt (CHR ''a'' # s) = None" "closedCommandAt [] = None" for s
    by (simp_all add: closedCommandAt_def startsWith_def)
  have d: "openCommandAt (CHR ''a'' # s) = None" "openCommandAt [] = None" for s
    by (simp_all add: openCommandAt_def startsWith_def)
  show ?thesis
    by (simp add: commandMatch_def firstMatch_none[where at = boldCommandAt, OF b]
        firstMatch_none[where at = closedCommandAt, OF c]
        firstMatch_none[where at = openCommandAt, OF d] cong: option.case_cong)
qed

lemma commandMatch_listWorkspaces:
  "commandMatch ''[COMMAND: listWorkspaces] {}'' = Some (''listWorkspaces'', ''{}'')"
  by (simp add: match_simps startsWith_def isWhiteSpace_def isLineTerminator_def)

text \<open>
  Claim C6 asks that the reply is cut to a fixed maximum length before the patterns are
  applied, so that the extracted command depends on a bounded prefix only. The code
  applies the three patterns to the whole reply; the cut to \<^verbatim>\<open>MAX_MESSAGE_LENGTH\<close> is
  made in \<^verbatim>\<open>extractContextFromMessage\<close>, on the user's message. For every length \<open>n\<close>
  the command behind \<open>n\<close> filler characters is found, and is not found in the first
  \<open>n\<close> characters of the same reply; with \<open>n\<close> the maximum length of the sibling path
  the turn returns the action.
\<close>

theorem commandMatch_beyond_any_prefix:
  "commandMatch (replicate n (CHR ''a'') @ ''[COMMAND: listWorkspaces] {}'') =
     Some (''listWorkspaces'', ''{}'') \<and>
   commandMatch (take n (replicate n (CHR ''a'') @ ''[COMMAND: listWorkspaces] {}'')) = None \<and>
   action (fst (resolveCommand exampleEnv exampleContext
     (replicate MAX_MESSAGE_LENGTH (CHR ''a'') @ ''[COMMAND: listWorkspaces] {}''))) =
     Some \<lparr>aname = ''listWorkspaces'', parameters = []\<rparr> \<and>
   action (fst (resolveCommand exampleEnv exampleContext
     (take MAX_MESSAGE_LENGTH
        (replicate MAX_MESSAGE_LENGTH (CHR ''a'') @ ''[COMMAND: listWorkspaces] {}'')))) = None"
proof -
  have a: "commandMatch (replicate n (CHR ''a'') @ ''[COMMAND: listWorkspaces] {}'') =
     Some (''listWorkspaces'', ''{}'')" for n
    by (simp only: commandMatch_skip commandMatch_listWorkspaces)
  have b: "commandMatch (take n (replicate n (CHR ''a'') @ ''[COMMAND: listWorkspaces] {}'')) = None" for n
    by (simp add: commandMatch_filler)
  have t: "trim ''listWorkspaces'' = ''listWorkspaces''"
    by (simp add: trim_def isWhiteSpace_def)
  have c: "action (fst (resolveCommand exampleEnv exampleContext
     (replicate MAX_MESSAGE_LENGTH (CHR ''a'') @ ''[COMMAND: listWorkspaces] {}''))) =
     Some \<lparr>aname = ''listWorkspaces'', parameters = []\<rparr>"
    by (simp add: resolveCommand_def a t exampleEnv_def exampleParse_def parseParameters_def
        validateCommandParameters_def autoFill_def resolveProjectSlug_def startsWith_def Let_def)
  have d: "action (fst (resolveCommand exampleEnv exampleContext
     (take MAX_MESSAGE_LENGTH
        (replicate MAX_MESSAGE_LENGTH (CHR ''a'') @ ''[COMMAND: listWorkspaces] {}'')))) = None"
    by (simp add: resolveCommand_def commandMatch_filler)
  from a b c d show ?thesis by blast
qed

section \<open>The structure of a turn\<close>

lemma chat_reply:
  assumes "requestReply E contexts req userId = (cs, Inr (sid, ctx, aiMessage))"
  shows "chat E contexts req userId =
           (fst (resolveCommand E ctx aiMessage), cs(sid \<mapsto> snd (resolveCommand E ctx aiMessage)))"
  using assms by (simp add: chat_def split: prod.splits)

lemma chat_failure:
  assumes "requestReply E contexts req userId = (cs, Inl e)"
  shows "chat E contexts req userId = (failureResponse (exceptionMessage e), cs)"
  using assms by (simp add: chat_def)

lemma requestReply_session:
  assumes "requestReply E contexts req userId = (cs, Inr (sid, ctx, aiMessage))"
  shows "sid = sessionIdOf req \<and> cs sid = Some ctx \<and>
         ctx = extractContextFromMessage E (message req)
                 (case contexts (sessionIdOf req) of
                    None \<Rightarrow> \<lparr>workspaceSlug = None, workspaceName = None, projectSlug = None,
                             projectName = None, lastUpdated = now E,
                             currentWorkSpaceProjectSlug = None\<rparr>
                  | Some c \<Rightarrow> c)"
  using assms
  by (auto simp: requestReply_def Let_def split: if_splits option.splits sum.splits)

lemma resolveCommand_parse_error:
  assumes "commandMatch aiMessage = Some (g1, g2)"
    and "parseParameters (JSON_parse E) (if g2 = [] then ''{}'' else g2) = None"
  shows "resolveCommand E ctx aiMessage =
           (\<lparr>rmessage = aiMessage, action = None, success = True, error = None\<rparr>, ctx)"
  using assms by (simp add: resolveCommand_def Let_def)

lemmas turn_simps = requestReply_def sessionIdOf_def exampleEnv_def exampleRequest_def
  exampleReply_def validateApiUrl_def normalizedHost_def toLowerCase_def upperCaseLetters_def
  lowerCaseLetters_def stripBrackets_def startsWith_def endsWith_def allowedHosts_def
  isInternalHost_def private172_def uniqueLocal_def linkLocal_def effectivePort_def
  googlePattern_def stripTrailingSlash_def exampleUrl_def detectProvider_def
  extractContextFromMessage_def extractWorkspace_def workspaceRound_def projectRound_def
  safeMessageOf_def MAX_MESSAGE_LENGTH_def exampleWorkspaceMatches_def
  exampleProjectMatches_def skippedProjectName_def skipWords_def slugOf_def trim_def
  isWhiteSpace_def upt_rec Let_def

text \<open>The example environment on the messages in which no pattern has a match.\<close>

lemma exampleEnv_reply:
  assumes "msg = ''open it'' \<or> msg = ''open nope'' \<or> msg = ''add a task''"
  shows "requestReply exampleEnv [''default'' \<mapsto> c] (exampleRequest msg) userId =
     ([''default'' \<mapsto> c], Inr (''default'', c, exampleReply msg))"
proof -
  have "requestReply exampleEnv [''default'' \<mapsto> c] (exampleRequest ''open it'') userId =
     ([''default'' \<mapsto> c], Inr (''default'', c, exampleReply ''open it''))"
    by (simp add: turn_simps)
  moreover have "requestReply exampleEnv [''default'' \<mapsto> c] (exampleRequest ''open nope'') userId =
     ([''default'' \<mapsto> c], Inr (''default'', c, exampleReply ''open nope''))"
    by (simp add: turn_simps)
  moreover have "requestReply exampleEnv [''default'' \<mapsto> c] (exampleRequest ''add a task'') userId =
     ([''default'' \<mapsto> c], Inr (''default'', c, exampleReply ''add a task''))"
    by (simp add: turn_simps)
  ultimately show ?thesis using assms by blast
qed

text \<open>
  On the messages that name a workspace after the words take me to, and on the message
  in which the word list stands before the word projects.
\<close>

lemma exampleEnv_reply_w2:
  "requestReply exampleEnv [''default'' \<mapsto> c] (exampleRequest ''take me to w2'') userId =
     ([''default'' \<mapsto> c\<lparr>workspaceName := Some (JStr ''w2''), projectSlug := None,
                            projectName := None, lastUpdated := 0\<rparr>],
      Inr (''default'', c\<lparr>workspaceName := Some (JStr ''w2''), projectSlug := None,
                            projectName := None, lastUpdated := 0\<rparr>,
           exampleReply ''take me to w2''))"
  by (simp add: turn_simps)



lemma resolveCommand_action:
  assumes "action (fst (resolveCommand E ctx aiMessage)) = Some a"
  shows "\<exists>g1 g2 ps v. commandMatch aiMessage = Some (g1, g2) \<and> aname a = trim g1 \<and>
           parseParameters (JSON_parse E) (if g2 = [] then ''{}'' else g2) = Some ps \<and>
           validateCommandParameters (commands E) (trim g1) ps = Inr v \<and> valid v \<and>
           parameters a = fst (resolveProjectSlug E (trim g1) (autoFill ctx (trim g1) ps) aiMessage) \<and>
           snd (resolveCommand E ctx aiMessage) =
             (case updateContextFromCommand E (aname a) (parameters a) ctx of
                Inl e \<Rightarrow> ctx | Inr c \<Rightarrow> c)"
proof -
  obtain g1 g2 where m: "commandMatch aiMessage = Some (g1, g2)"
    using assms by (cases "commandMatch aiMessage") (auto simp: resolveCommand_def)
  define pstr where "pstr = (if g2 = [] then ''{}'' else g2)"
  obtain ps where p: "parseParameters (JSON_parse E) pstr = Some ps"
    using assms m unfolding resolveCommand_def
    by (cases "parseParameters (JSON_parse E) pstr") (simp_all add: Let_def pstr_def[symmetric])
  obtain v where w: "validateCommandParameters (commands E) (trim g1) ps = Inr v"
    using assms m p unfolding resolveCommand_def
    by (cases "validateCommandParameters (commands E) (trim g1) ps")
      (simp_all add: Let_def pstr_def[symmetric])
  have v: "valid v"
  proof (rule ccontr)
    assume "\<not> valid v"
    with assms m p w show False
      unfolding resolveCommand_def by (simp add: Let_def pstr_def[symmetric])
  qed
  obtain ps2 m2 where r:
    "resolveProjectSlug E (trim g1) (autoFill ctx (trim g1) ps) aiMessage = (ps2, m2)"
    by (cases "resolveProjectSlug E (trim g1) (autoFill ctx (trim g1) ps) aiMessage") auto
  have e: "resolveCommand E ctx aiMessage =
      (\<lparr>rmessage = m2, action = Some \<lparr>aname = trim g1, parameters = ps2\<rparr>, success = True,
        error = None\<rparr>,
       case updateContextFromCommand E (trim g1) ps2 ctx of Inl e \<Rightarrow> ctx | Inr c \<Rightarrow> c)"
    using m p w v r unfolding resolveCommand_def by (simp add: Let_def pstr_def[symmetric])
  with assms have a: "a = \<lparr>aname = trim g1, parameters = ps2\<rparr>" by simp
  from m p w v r e a show ?thesis by (auto simp: pstr_def)
qed

lemma chat_action:
  assumes "chat E contexts req userId = (resp, contexts')" and "action resp = Some a"
  shows "\<exists>cs ctx aiMessage.
           requestReply E contexts req userId = (cs, Inr (sessionIdOf req, ctx, aiMessage)) \<and>
           resp = fst (resolveCommand E ctx aiMessage) \<and>
           contexts' = cs(sessionIdOf req \<mapsto> snd (resolveCommand E ctx aiMessage))"
proof (cases "requestReply E contexts req userId")
  case (Pair cs r)
  show ?thesis
  proof (cases r)
    case (Inl e)
    with Pair assms show ?thesis
      by (auto simp: chat_failure failureResponse_def split: if_splits)
  next
    case (Inr t)
    obtain sid ctx aiMessage where t: "t = (sid, ctx, aiMessage)" by (cases t) auto
    from Pair Inr t have r: "requestReply E contexts req userId = (cs, Inr (sid, ctx, aiMessage))"
      by simp
    from requestReply_session[OF r] have "sid = sessionIdOf req" by simp
    with r chat_reply[OF r] assms(1) show ?thesis by auto
  qed
qed







lemmas reply_simps = exampleReply_def match_simps startsWith_def isWhiteSpace_def
  isLineTerminator_def

lemmas resolve_simps = resolveCommand_def exampleEnv_def exampleParse_def parseParameters_def
  validateCommandParameters_def isMissing_def string_simps autoFill_def strictEquals_def
  resolveProjectSlug_def updateContextFromCommand_def orElse_def exampleContext_def Let_def

lemma match_open_it:
  "commandMatch (exampleReply ''open it'') = Some (''navigateToWorkspace'', ''{}'')"
  by (simp add: reply_simps)


lemma match_take_me_to_w2:
  "commandMatch (exampleReply ''take me to w2'') =
     Some (''navigateToWorkspace'', ''{\"workspaceSlug\":\"w2\"}'')"
  by (simp add: reply_simps)

lemma match_open_nope:
  "commandMatch (exampleReply ''open nope'') =
     Some (''navigateToProject'', ''{\"workspaceSlug\":\"w1\",\"projectSlug\":\"nope\"}'')"
  by (simp add: reply_simps)

lemma trim_names:
  "trim ''navigateToWorkspace'' = ''navigateToWorkspace''"
  "trim ''listProjects'' = ''listProjects''"
  "trim ''navigateToProject'' = ''navigateToProject''"
  by (simp_all add: trim_def isWhiteSpace_def)


section \<open>A payload that does not parse\<close>

text \<open>
  Claim C8. When the turn has the reply of the model, a command is found in it, and its
  payload parses neither as it is nor after the brace repair, the turn returns the reply
  as it is, with no action and with success; the contexts are those the turn had before
  the reply. \<^verbatim>\<open>chat\<close> is a total function: no exception leaves it.
\<close>

theorem chat_parse_error:
  assumes "requestReply E contexts req userId = (cs, Inr (sid, ctx, aiMessage))"
    and "commandMatch aiMessage = Some (g1, g2)"
    and "JSON_parse E (if g2 = [] then ''{}'' else g2) = None"
    and "JSON_parse E (repairedJson (if g2 = [] then ''{}'' else g2)) = None"
  shows "chat E contexts req userId =
           (\<lparr>rmessage = aiMessage, action = None, success = True, error = None\<rparr>, cs)"
proof -
  have p: "parseParameters (JSON_parse E) (if g2 = [] then ''{}'' else g2) = None"
    using assms(3,4) by (simp add: parseParameters_def)
  have s: "cs(sid \<mapsto> ctx) = cs"
    using requestReply_session[OF assms(1)] by (auto simp: fun_eq_iff)
  show ?thesis
    by (simp add: chat_reply[OF assms(1)] resolveCommand_parse_error[OF assms(2) p] s)
qed

theorem chat_parse_error_witness:
  "chat exampleEnv [''default'' \<mapsto> exampleContext] (exampleRequest ''add a task'') ''u1'' =
     (\<lparr>rmessage = ''Adding. [COMMAND: createTask] {\"taskTitle\": oops'', action = None,
       success = True, error = None\<rparr>, [''default'' \<mapsto> exampleContext])"
proof -
  have r: "requestReply exampleEnv [''default'' \<mapsto> exampleContext] (exampleRequest ''add a task'') ''u1'' =
      ([''default'' \<mapsto> exampleContext], Inr (''default'', exampleContext,
         ''Adding. [COMMAND: createTask] {\"taskTitle\": oops''))"
    using exampleEnv_reply[where msg = "''add a task''" and c = exampleContext and userId = "''u1''"]
    by (simp add: exampleReply_def)
  have m: "commandMatch ''Adding. [COMMAND: createTask] {\"taskTitle\": oops'' =
      Some (''createTask'', ''{\"taskTitle\": oops'')"
    by (simp add: match_simps startsWith_def isWhiteSpace_def isLineTerminator_def)
  have p1: "JSON_parse exampleEnv (if ''{\"taskTitle\": oops'' = [] then ''{}'' else ''{\"taskTitle\": oops'') = None"
    by (simp add: exampleEnv_def exampleParse_def)
  have p2: "JSON_parse exampleEnv (repairedJson (if ''{\"taskTitle\": oops'' = [] then ''{}'' else ''{\"taskTitle\": oops'')) = None"
    by (simp add: exampleEnv_def exampleParse_def repairedJson_def openBraces_def)
  from chat_parse_error[OF r m p1 p2] show ?thesis .
qed

section \<open>The context mutator\<close>

lemma updateContext_navigateToWorkspace:
  assumes "truthy (map_of ps ''workspaceSlug'')"
  shows "\<exists>c. updateContextFromCommand E ''navigateToWorkspace'' ps ctx = Inr c \<and>
             workspaceSlug c = map_of ps ''workspaceSlug'' \<and>
             projectSlug c = None \<and> projectName c = None"
  using assms by (simp add: updateContextFromCommand_def Let_def)

lemma updateContext_createWorkspace:
  assumes "truthy (map_of ps ''name'')" and "toString (map_of ps ''name'') = Inr s"
  shows "\<exists>c. updateContextFromCommand E ''createWorkspace'' ps ctx = Inr c \<and>
             workspaceSlug c = Some (JStr (slugOf s)) \<and>
             projectSlug c = None \<and> projectName c = None"
  using assms by (simp add: updateContextFromCommand_def Let_def)

lemma workspaceRound_keeps_cleared:
  assumes "projectSlug (fst st) = None \<and> projectName (fst st) = None"
  shows "projectSlug (fst (workspaceRound E m st i)) = None \<and>
         projectName (fst (workspaceRound E m st i)) = None"
  using assms by (simp add: workspaceRound_def Let_def split: option.splits)

lemma workspaceRound_clears:
  assumes "g \<in> set (matchAllWorkspace E i m)" and "g \<noteq> []"
    and "\<not> includesStr (toLowerCase m) ''project''"
  shows "projectSlug (fst (workspaceRound E m st i)) = None \<and>
         projectName (fst (workspaceRound E m st i)) = None \<and> snd (workspaceRound E m st i)"
proof (cases "find (\<lambda>g. g \<noteq> []) (matchAllWorkspace E i m)")
  case None
  with assms(1,2) show ?thesis by (auto simp: find_None_iff)
next
  case (Some h)
  with assms(3) show ?thesis by (simp add: workspaceRound_def Let_def)
qed

lemma workspaceRound_keeps_updated:
  "snd st \<Longrightarrow> snd (workspaceRound E m st i)"
  by (simp add: workspaceRound_def Let_def split: option.splits)

lemma workspaceRounds_keep_cleared:
  assumes "projectSlug (fst st) = None \<and> projectName (fst st) = None"
  shows "projectSlug (fst (foldl (workspaceRound E m) st js)) = None \<and>
         projectName (fst (foldl (workspaceRound E m) st js)) = None"
  using assms
proof (induction js arbitrary: st)
  case Nil
  then show ?case by simp
next
  case (Cons j js)
  from Cons.IH[OF workspaceRound_keeps_cleared[OF Cons.prems]] show ?case by simp
qed

lemma workspaceRounds_keep_updated:
  "snd st \<Longrightarrow> snd (foldl (workspaceRound E m) st js)"
proof (induction js arbitrary: st)
  case Nil
  then show ?case by simp
next
  case (Cons j js)
  from Cons.IH[OF workspaceRound_keeps_updated[OF Cons.prems]] show ?case by simp
qed

lemma workspaceRounds_clear:
  assumes "i \<in> set js" and "g \<in> set (matchAllWorkspace E i m)" and "g \<noteq> []"
    and "\<not> includesStr (toLowerCase m) ''project''"
  shows "projectSlug (fst (foldl (workspaceRound E m) st js)) = None \<and>
         projectName (fst (foldl (workspaceRound E m) st js)) = None \<and>
         snd (foldl (workspaceRound E m) st js)"
  using assms(1)
proof (induction js arbitrary: st)
  case Nil
  then show ?case by simp
next
  case (Cons j js)
  show ?case
  proof (cases "j = i")
    case True
    from workspaceRound_clears[OF assms(2,3,4), of st]
    have c: "projectSlug (fst (workspaceRound E m st i)) = None \<and>
         projectName (fst (workspaceRound E m st i)) = None" and u: "snd (workspaceRound E m st i)"
      by simp_all
    from workspaceRounds_keep_cleared[OF c] workspaceRounds_keep_updated[OF u] True
    show ?thesis by simp
  next
    case False
    with Cons.prems have "i \<in> set js" by simp
    from Cons.IH[OF this] show ?thesis by simp
  qed
qed

lemma workspaceRounds_keep_project:
  assumes "includesStr (toLowerCase m) ''project''"
  shows "projectSlug (fst (foldl (workspaceRound E m) st js)) = projectSlug (fst st) \<and>
         projectName (fst (foldl (workspaceRound E m) st js)) = projectName (fst st)"
proof (induction js arbitrary: st)
  case Nil
  show ?case by simp
next
  case (Cons j js)
  have "projectSlug (fst (workspaceRound E m st j)) = projectSlug (fst st) \<and>
        projectName (fst (workspaceRound E m st j)) = projectName (fst st)"
    using assms by (simp add: workspaceRound_def Let_def split: option.splits)
  with Cons.IH[of "workspaceRound E m st j"] show ?case by simp
qed

lemma projectRound_clearedOrNamed:
  assumes "clearedOrNamed E m (fst st)" and "j < 6"
  shows "clearedOrNamed E m (fst (projectRound E m st j))"
proof (cases "find (\<lambda>g. g \<noteq> [] \<and> \<not> skippedProjectName (trim g)) (matchAllProject E j m)")
  case None
  with assms(1) show ?thesis by (simp add: projectRound_def)
next
  case (Some h)
  then have "h \<in> set (matchAllProject E j m)"
    by (auto simp: find_Some_iff)
  with Some assms(2) show ?thesis
    by (auto simp: projectRound_def clearedOrNamed_def)
qed

lemma projectRounds_clearedOrNamed:
  assumes "clearedOrNamed E m (fst st)" and "\<forall>j \<in> set js. j < 6"
  shows "clearedOrNamed E m (fst (foldl (projectRound E m) st js))"
  using assms
proof (induction js arbitrary: st)
  case Nil
  then show ?case by simp
next
  case (Cons j js)
  from Cons.prems have "clearedOrNamed E m (fst (projectRound E m st j))"
    by (simp add: projectRound_clearedOrNamed)
  with Cons.IH[of "projectRound E m st j"] Cons.prems(2) show ?case by simp
qed

lemma extractWorkspace_clears:
  assumes "i < 7" and "g \<in> set (matchAllWorkspace E i (safeMessageOf msg))" and "g \<noteq> []"
    and "\<not> includesStr (toLowerCase (safeMessageOf msg)) ''project''"
  shows "projectSlug (fst (extractWorkspace E msg ctx)) = None \<and>
         projectName (fst (extractWorkspace E msg ctx)) = None \<and>
         snd (extractWorkspace E msg ctx)"
proof -
  from assms(1) have "i \<in> set [0..<7]" by simp
  from workspaceRounds_clear[OF this assms(2,3,4)] show ?thesis
    by (simp add: extractWorkspace_def)
qed

lemma extractContext_clearedOrNamed:
  assumes "i < 7" and "g \<in> set (matchAllWorkspace E i (safeMessageOf msg))" and "g \<noteq> []"
    and "\<not> includesStr (toLowerCase (safeMessageOf msg)) ''project''"
  shows "clearedOrNamed E (safeMessageOf msg) (extractContextFromMessage E msg ctx)"
proof -
  from extractWorkspace_clears[OF assms]
  have "clearedOrNamed E (safeMessageOf msg) (fst (extractWorkspace E msg ctx))"
    by (simp add: clearedOrNamed_def)
  then have "clearedOrNamed E (safeMessageOf msg)
      (fst (foldl (projectRound E (safeMessageOf msg)) (extractWorkspace E msg ctx) [0..<6]))"
    by (rule projectRounds_clearedOrNamed) simp
  then show ?thesis
    by (simp add: extractContextFromMessage_def Let_def clearedOrNamed_def)
qed

text \<open>
  Claim C7, as the code has it. A \<^verbatim>\<open>navigateToWorkspace\<close> action with a workspace slug,
  and a \<^verbatim>\<open>createWorkspace\<close> action with a name that converts to a string, set the
  workspace of the context and clear its project fields, in
  \<^verbatim>\<open>updateContextFromCommand\<close> and so in the contexts that the turn leaves. In the
  heuristic extraction, when one of the seven workspace patterns has a match and the
  message (cut to its maximum length, in lower case) does not contain the word project,
  the loop over the workspace patterns leaves the project fields cleared, and after the
  whole extraction they are cleared or hold the project that a project pattern found in
  this same message. When the message contains the word project, whether it names a
  project or not, the loop over the workspace patterns leaves the project fields as they
  were.
\<close>

theorem workspace_switch_clears_project:
  "(commandName = ''navigateToWorkspace'' \<and> truthy (map_of ps ''workspaceSlug'') \<longrightarrow>
      (\<exists>c. updateContextFromCommand E commandName ps ctx = Inr c \<and>
           workspaceSlug c = map_of ps ''workspaceSlug'' \<and>
           projectSlug c = None \<and> projectName c = None)) \<and>
   (commandName = ''createWorkspace'' \<and> truthy (map_of ps ''name'') \<and>
    toString (map_of ps ''name'') = Inr s \<longrightarrow>
      (\<exists>c. updateContextFromCommand E commandName ps ctx = Inr c \<and>
           workspaceSlug c = Some (JStr (slugOf s)) \<and>
           projectSlug c = None \<and> projectName c = None)) \<and>
   (chat E contexts req userId = (resp, contexts') \<and> action resp = Some a \<and>
    (aname a = ''navigateToWorkspace'' \<and> truthy (map_of (parameters a) ''workspaceSlug'') \<or>
     aname a = ''createWorkspace'' \<and> truthy (map_of (parameters a) ''name'') \<and>
     toString (map_of (parameters a) ''name'') = Inr s') \<longrightarrow>
      (\<exists>c. contexts' (sessionIdOf req) = Some c \<and> projectSlug c = None \<and> projectName c = None)) \<and>
   (i < 7 \<and> g \<in> set (matchAllWorkspace E i (safeMessageOf msg)) \<and> g \<noteq> [] \<and>
    \<not> includesStr (toLowerCase (safeMessageOf msg)) ''project'' \<longrightarrow>
      projectSlug (fst (extractWorkspace E msg ctx)) = None \<and>
      projectName (fst (extractWorkspace E msg ctx)) = None \<and>
      clearedOrNamed E (safeMessageOf msg) (extractContextFromMessage E msg ctx)) \<and>
   (includesStr (toLowerCase (safeMessageOf msg)) ''project'' \<longrightarrow>
      projectSlug (fst (extractWorkspace E msg ctx)) = projectSlug ctx \<and>
      projectName (fst (extractWorkspace E msg ctx)) = projectName ctx)"
proof (intro conjI impI)
  assume "commandName = ''navigateToWorkspace'' \<and> truthy (map_of ps ''workspaceSlug'')"
  then show "\<exists>c. updateContextFromCommand E commandName ps ctx = Inr c \<and>
           workspaceSlug c = map_of ps ''workspaceSlug'' \<and>
           projectSlug c = None \<and> projectName c = None"
    using updateContext_navigateToWorkspace[of ps E ctx] by simp
next
  assume "commandName = ''createWorkspace'' \<and> truthy (map_of ps ''name'') \<and>
    toString (map_of ps ''name'') = Inr s"
  then show "\<exists>c. updateContextFromCommand E commandName ps ctx = Inr c \<and>
           workspaceSlug c = Some (JStr (slugOf s)) \<and>
           projectSlug c = None \<and> projectName c = None"
    using updateContext_createWorkspace[of ps s E ctx] by simp
next
  assume h: "chat E contexts req userId = (resp, contexts') \<and> action resp = Some a \<and>
    (aname a = ''navigateToWorkspace'' \<and> truthy (map_of (parameters a) ''workspaceSlug'') \<or>
     aname a = ''createWorkspace'' \<and> truthy (map_of (parameters a) ''name'') \<and>
     toString (map_of (parameters a) ''name'') = Inr s')"
  then obtain cs c0 aiMessage where
      r: "resp = fst (resolveCommand E c0 aiMessage)"
      and s: "contexts' = cs(sessionIdOf req \<mapsto> snd (resolveCommand E c0 aiMessage))"
    using chat_action[of E contexts req userId resp contexts' a] by blast
  from h r have "action (fst (resolveCommand E c0 aiMessage)) = Some a" by simp
  from resolveCommand_action[OF this]
  have u: "snd (resolveCommand E c0 aiMessage) =
      (case updateContextFromCommand E (aname a) (parameters a) c0 of Inl e \<Rightarrow> c0 | Inr c \<Rightarrow> c)"
    by blast
  from h have "\<exists>c. updateContextFromCommand E (aname a) (parameters a) c0 = Inr c \<and>
      projectSlug c = None \<and> projectName c = None"
    using updateContext_navigateToWorkspace[of "parameters a" E c0]
      updateContext_createWorkspace[of "parameters a" s' E c0] by auto
  with u s show "\<exists>c. contexts' (sessionIdOf req) = Some c \<and> projectSlug c = None \<and>
      projectName c = None" by auto
next
  assume h: "i < 7 \<and> g \<in> set (matchAllWorkspace E i (safeMessageOf msg)) \<and> g \<noteq> [] \<and>
    \<not> includesStr (toLowerCase (safeMessageOf msg)) ''project''"
  then have a: "i < 7" "g \<in> set (matchAllWorkspace E i (safeMessageOf msg))" "g \<noteq> []"
    "\<not> includesStr (toLowerCase (safeMessageOf msg)) ''project''" by simp_all
  from extractWorkspace_clears[OF a] show "projectSlug (fst (extractWorkspace E msg ctx)) = None"
    and "projectName (fst (extractWorkspace E msg ctx)) = None" by simp_all
  from extractContext_clearedOrNamed[OF a]
  show "clearedOrNamed E (safeMessageOf msg) (extractContextFromMessage E msg ctx)" .
next
  assume h: "includesStr (toLowerCase (safeMessageOf msg)) ''project''"
  from workspaceRounds_keep_project[OF h, of E "(ctx, False)" "[0..<7]"]
  show "projectSlug (fst (extractWorkspace E msg ctx)) = projectSlug ctx"
    and "projectName (fst (extractWorkspace E msg ctx)) = projectName ctx"
    by (simp_all add: extractWorkspace_def)
qed

lemmas lower_simps = safeMessageOf_def MAX_MESSAGE_LENGTH_def toLowerCase_def upperCaseLetters_def
  lowerCaseLetters_def startsWith_def

lemma includes_project_no:
  "\<not> includesStr (toLowerCase (safeMessageOf ''use workspace \"w2\"'')) ''project''"
  by (simp add: lower_simps)

lemma includes_project_yes:
  "includesStr (toLowerCase (safeMessageOf ''w2 workspace, no project'')) ''project''"
  by (simp add: lower_simps)

lemma chat_take_me_to_w2:
  "chat exampleEnv [''default'' \<mapsto> exampleContext] (exampleRequest ''take me to w2'') ''u1'' =
     (\<lparr>rmessage = ''Going there. [COMMAND: navigateToWorkspace] {\"workspaceSlug\":\"w2\"}'',
       action = Some \<lparr>aname = ''navigateToWorkspace'', parameters = [(''workspaceSlug'', JStr ''w2'')]\<rparr>,
       success = True, error = None\<rparr>,
      [''default'' \<mapsto> \<lparr>workspaceSlug = Some (JStr ''w2''), workspaceName = Some (JStr ''w2''),
         projectSlug = None, projectName = None, lastUpdated = 0,
         currentWorkSpaceProjectSlug = Some []\<rparr>])"
proof -
  let ?c = "exampleContext\<lparr>workspaceName := Some (JStr ''w2''), projectSlug := None,
      projectName := None, lastUpdated := 0\<rparr>"
  have r: "resolveCommand exampleEnv ?c (exampleReply ''take me to w2'') =
     (\<lparr>rmessage = ''Going there. [COMMAND: navigateToWorkspace] {\"workspaceSlug\":\"w2\"}'',
       action = Some \<lparr>aname = ''navigateToWorkspace'', parameters = [(''workspaceSlug'', JStr ''w2'')]\<rparr>,
       success = True, error = None\<rparr>,
      \<lparr>workspaceSlug = Some (JStr ''w2''), workspaceName = Some (JStr ''w2''),
         projectSlug = None, projectName = None, lastUpdated = 0,
         currentWorkSpaceProjectSlug = Some []\<rparr>)"
    unfolding resolveCommand_def match_take_me_to_w2
    by (simp add: trim_names resolve_simps exampleReply_def)
  show ?thesis
    by (simp add: chat_reply[OF exampleEnv_reply_w2] r)
qed

theorem workspace_switch_clears_project_witness:
  "(\<exists>c. updateContextFromCommand exampleEnv ''navigateToWorkspace'' [(''workspaceSlug'', JStr ''w2'')]
          exampleContext = Inr c \<and>
        workspaceSlug c = Some (JStr ''w2'') \<and> projectSlug c = None \<and> projectName c = None) \<and>
   (\<exists>c. updateContextFromCommand exampleEnv ''createWorkspace'' [(''name'', JStr ''My Space'')]
          exampleContext = Inr c \<and>
        workspaceSlug c = Some (JStr ''my-space'') \<and> projectSlug c = None \<and> projectName c = None) \<and>
   (\<exists>c. snd (chat exampleEnv [''default'' \<mapsto> exampleContext] (exampleRequest ''take me to w2'') ''u1'')
          ''default'' = Some c \<and> projectSlug c = None \<and> projectName c = None) \<and>
   projectSlug exampleContext = Some (JStr ''p1'') \<and>
   projectSlug (fst (extractWorkspace exampleEnv ''use workspace \"w2\"'' exampleContext)) = None \<and>
   projectName (fst (extractWorkspace exampleEnv ''use workspace \"w2\"'' exampleContext)) = None \<and>
   clearedOrNamed exampleEnv (safeMessageOf ''use workspace \"w2\"'')
     (extractContextFromMessage exampleEnv ''use workspace \"w2\"'' exampleContext) \<and>
   projectSlug (fst (extractWorkspace exampleEnv ''w2 workspace, no project'' exampleContext)) =
     Some (JStr ''p1'')"
proof -
  let ?req = "exampleRequest ''take me to w2''"
  let ?resp = "fst (chat exampleEnv [''default'' \<mapsto> exampleContext] ?req ''u1'')"
  let ?cs = "snd (chat exampleEnv [''default'' \<mapsto> exampleContext] ?req ''u1'')"
  let ?a = "\<lparr>aname = ''navigateToWorkspace'', parameters = [(''workspaceSlug'', JStr ''w2'')]\<rparr>"
  note t1 = workspace_switch_clears_project[where commandName = "''navigateToWorkspace''"
      and ps = "[(''workspaceSlug'', JStr ''w2'')]" and E = exampleEnv and ctx = exampleContext,
      THEN conjunct1]
  note t2 = workspace_switch_clears_project[where commandName = "''createWorkspace''"
      and ps = "[(''name'', JStr ''My Space'')]" and s = "''My Space''" and E = exampleEnv
      and ctx = exampleContext, THEN conjunct2, THEN conjunct1]
  note t3 = workspace_switch_clears_project[where E = exampleEnv
      and contexts = "[''default'' \<mapsto> exampleContext]" and req = ?req and userId = "''u1''"
      and resp = ?resp and contexts' = ?cs and a = ?a,
      THEN conjunct2, THEN conjunct2, THEN conjunct1]
  note t4 = workspace_switch_clears_project[where E = exampleEnv and i = 0 and g = "''w2''"
      and msg = "''use workspace \"w2\"''" and ctx = exampleContext,
      THEN conjunct2, THEN conjunct2, THEN conjunct2, THEN conjunct1]
  note t5 = workspace_switch_clears_project[where E = exampleEnv
      and msg = "''w2 workspace, no project''" and ctx = exampleContext,
      THEN conjunct2, THEN conjunct2, THEN conjunct2, THEN conjunct2]
  have s: "toString (map_of [(''name'', JStr ''My Space'')] ''name'') = Inr ''My Space''"
    "slugOf ''My Space'' = ''my-space''"
    by (simp_all add: slugOf_def toString_def toLowerCase_def upperCaseLetters_def
        lowerCaseLetters_def isWhiteSpace_def)
  from t1 have c1: "\<exists>c. updateContextFromCommand exampleEnv ''navigateToWorkspace''
          [(''workspaceSlug'', JStr ''w2'')] exampleContext = Inr c \<and>
        workspaceSlug c = Some (JStr ''w2'') \<and> projectSlug c = None \<and> projectName c = None"
    by simp
  from t2 s have c2: "\<exists>c. updateContextFromCommand exampleEnv ''createWorkspace''
          [(''name'', JStr ''My Space'')] exampleContext = Inr c \<and>
        workspaceSlug c = Some (JStr ''my-space'') \<and> projectSlug c = None \<and> projectName c = None"
    by simp
  have "action ?resp = Some ?a"
    by (simp add: chat_take_me_to_w2)
  moreover have "sessionIdOf ?req = ''default''"
    by (simp add: sessionIdOf_def exampleRequest_def)
  ultimately have c3: "\<exists>c. ?cs ''default'' = Some c \<and> projectSlug c = None \<and> projectName c = None"
    using t3 by simp
  have m: "''w2'' \<in> set (matchAllWorkspace exampleEnv 0 (safeMessageOf ''use workspace \"w2\"''))"
    by (simp add: exampleEnv_def exampleWorkspaceMatches_def safeMessageOf_def
        MAX_MESSAGE_LENGTH_def)
  from t4 m includes_project_no
  have c4: "projectSlug (fst (extractWorkspace exampleEnv ''use workspace \"w2\"'' exampleContext)) = None \<and>
   projectName (fst (extractWorkspace exampleEnv ''use workspace \"w2\"'' exampleContext)) = None \<and>
   clearedOrNamed exampleEnv (safeMessageOf ''use workspace \"w2\"'')
     (extractContextFromMessage exampleEnv ''use workspace \"w2\"'' exampleContext)"
    by simp
  from t5 includes_project_yes
  have c5: "projectSlug (fst (extractWorkspace exampleEnv ''w2 workspace, no project''
      exampleContext)) = Some (JStr ''p1'')"
    by (simp add: exampleContext_def)
  have c6: "projectSlug exampleContext = Some (JStr ''p1'')" by (simp add: exampleContext_def)
  from c1 c2 c3 c4 c5 c6 show ?thesis by blast
qed

text \<open>
  The claim C7 as the specification words it clears the project fields on a switch unless
  the message names a project, so that they are never left with a workspace they do not
  belong to. The message below names the workspace w2 and no project; it contains the
  word project, the only match of a project pattern is the word no, which is skipped, and
  the turn leaves the project p1 of the workspace w1 beside the workspace name w2. An
  \<^verbatim>\<open>editWorkspace\<close> action for another workspace sets the slug and the name of the
  workspace and keeps the project as well.
\<close>

theorem workspace_switch_keeps_project_counterexample:
  "exampleWorkspaceMatches 5 ''w2 workspace, no project'' = [''w2''] \<and>
   exampleProjectMatches 3 ''w2 workspace, no project'' = [''no''] \<and>
   skippedProjectName ''no'' \<and>
   exampleReply ''w2 workspace, no project'' = ''Hello.'' \<and>
   exampleContext =
     \<lparr>workspaceSlug = Some (JStr ''w1''), workspaceName = Some (JStr ''w1''),
      projectSlug = Some (JStr ''p1''), projectName = Some (JStr ''p1''), lastUpdated = 0,
      currentWorkSpaceProjectSlug = None\<rparr> \<and>
   chat exampleEnv [''default'' \<mapsto> exampleContext]
       (exampleRequest ''w2 workspace, no project'') ''u1'' =
     (\<lparr>rmessage = ''Hello.'', action = None, success = True, error = None\<rparr>,
      [''default'' \<mapsto>
         \<lparr>workspaceSlug = Some (JStr ''w1''), workspaceName = Some (JStr ''w2''),
          projectSlug = Some (JStr ''p1''), projectName = Some (JStr ''p1''), lastUpdated = 0,
          currentWorkSpaceProjectSlug = None\<rparr>]) \<and>
   updateContextFromCommand exampleEnv ''editWorkspace''
       [(''workspaceSlug'', JStr ''w2''), (''updates'', JObj [(''name'', JStr ''Second'')])]
       exampleContext =
     Inr \<lparr>workspaceSlug = Some (JStr ''w2''), workspaceName = Some (JStr ''Second''),
          projectSlug = Some (JStr ''p1''), projectName = Some (JStr ''p1''), lastUpdated = 0,
          currentWorkSpaceProjectSlug = None\<rparr>"
proof -
  let ?c = "\<lparr>workspaceSlug = Some (JStr ''w1''), workspaceName = Some (JStr ''w2''),
          projectSlug = Some (JStr ''p1''), projectName = Some (JStr ''p1''), lastUpdated = 0,
          currentWorkSpaceProjectSlug = None\<rparr>"
  have m: "exampleWorkspaceMatches 5 ''w2 workspace, no project'' = [''w2'']"
    "exampleProjectMatches 3 ''w2 workspace, no project'' = [''no'']"
    "exampleReply ''w2 workspace, no project'' = ''Hello.''"
    by (simp_all add: exampleWorkspaceMatches_def exampleProjectMatches_def exampleReply_def)
  have k: "skippedProjectName ''no''"
    by (simp add: skippedProjectName_def skipWords_def toLowerCase_def upperCaseLetters_def
        lowerCaseLetters_def startsWith_def)
  have q: "requestReply exampleEnv [''default'' \<mapsto> exampleContext]
      (exampleRequest ''w2 workspace, no project'') ''u1'' =
      ([''default'' \<mapsto> ?c], Inr (''default'', ?c, ''Hello.''))"
    by (simp add: turn_simps exampleContext_def)
  have n: "commandMatch ''Hello.'' = None"
    by (simp add: match_simps startsWith_def)
  have r: "resolveCommand exampleEnv ?c ''Hello.'' =
      (\<lparr>rmessage = ''Hello.'', action = None, success = True, error = None\<rparr>, ?c)"
    by (simp add: resolveCommand_def n)
  have c: "chat exampleEnv [''default'' \<mapsto> exampleContext]
       (exampleRequest ''w2 workspace, no project'') ''u1'' =
     (\<lparr>rmessage = ''Hello.'', action = None, success = True, error = None\<rparr>, [''default'' \<mapsto> ?c])"
    by (simp add: chat_reply[OF q] r)
  have e: "updateContextFromCommand exampleEnv ''editWorkspace''
       [(''workspaceSlug'', JStr ''w2''), (''updates'', JObj [(''name'', JStr ''Second'')])]
       exampleContext =
     Inr \<lparr>workspaceSlug = Some (JStr ''w2''), workspaceName = Some (JStr ''Second''),
          projectSlug = Some (JStr ''p1''), projectName = Some (JStr ''p1''), lastUpdated = 0,
          currentWorkSpaceProjectSlug = None\<rparr>"
    by (simp add: updateContextFromCommand_def updatesName_def exampleContext_def exampleEnv_def
        Let_def)
  have x: "exampleContext =
     \<lparr>workspaceSlug = Some (JStr ''w1''), workspaceName = Some (JStr ''w1''),
      projectSlug = Some (JStr ''p1''), projectName = Some (JStr ''p1''), lastUpdated = 0,
      currentWorkSpaceProjectSlug = None\<rparr>"
    by (simp add: exampleContext_def)
  from m k c e x show ?thesis by blast
qed

section \<open>Validation and auto-fill in a turn\<close>

lemma filterMissing_cong:
  assumes "\<forall>p \<in> set xs. map_of qs p = map_of ps p"
  shows "filterMissing qs xs = filterMissing ps xs"
proof -
  have "\<forall>p \<in> set xs. isMissing qs p = isMissing ps p"
    using assms by (simp add: isMissing_def)
  then show ?thesis by (induction xs) (simp_all cong: sum.case_cong)
qed

lemma valid_required_truthy:
  assumes "find (\<lambda>cmd. name cmd = commandName) cmds = Some c"
    and "validateCommandParameters cmds commandName ps = Inr v" and "valid v"
    and "p \<in> set (params c)" and "\<not> endsWith p ''?''"
  shows "truthy (map_of ps p)"
proof (rule ccontr)
  assume "\<not> truthy (map_of ps p)"
  then have "isMissing ps p = Inr True" by (simp add: isMissing_def)
  with assms(4,5) have "p \<in> set (filter (\<lambda>p. \<not> endsWith p ''?'' \<and> isMissing ps p = Inr True) (params c))"
    by simp
  moreover from validate_returns[OF assms(1,2)] assms(3)
  have "filter (\<lambda>p. \<not> endsWith p ''?'' \<and> isMissing ps p = Inr True) (params c) = []"
    by metis
  ultimately show False by simp
qed

text \<open>
  The auto-fill assigns a slug only where the payload has a falsy one, so it changes no
  parameter that is truthy, and no required parameter of a command that has passed the
  validation: for a slug that the grammar requires, the block has no effect.
\<close>

lemma autoFill_keeps_truthy:
  assumes "truthy (map_of ps p)"
  shows "map_of (autoFill ctx n ps) p = map_of ps p"
proof -
  define fillWorkspace where "fillWorkspace \<longleftrightarrow>
     n \<noteq> ''listWorkspaces'' \<and> n \<noteq> ''createWorkspace'' \<and>
     \<not> truthy (map_of ps ''workspaceSlug'') \<and> truthy (workspaceSlug ctx)"
  define ps1 where "ps1 =
     (if fillWorkspace then AList.update ''workspaceSlug'' (the (workspaceSlug ctx)) ps else ps)"
  have a: "map_of ps1 p = map_of ps p"
  proof (cases fillWorkspace)
    case True
    then have "p \<noteq> ''workspaceSlug''" using assms by (auto simp: fillWorkspace_def)
    with True show ?thesis by (simp add: ps1_def update_conv')
  next
    case False
    then show ?thesis by (simp add: ps1_def)
  qed
  have f: "autoFill ctx n ps =
      (if (includesStr n ''Task'' \<or> includesStr n ''Project'') \<and>
            \<not> truthy (map_of ps1 ''projectSlug'') \<and> truthy (projectSlug ctx) \<and>
            (fillWorkspace \<or> strictEquals (map_of ps1 ''workspaceSlug'') (workspaceSlug ctx))
         then AList.update ''projectSlug'' (the (projectSlug ctx)) ps1
         else ps1)"
    unfolding autoFill_def Let_def ps1_def fillWorkspace_def by (rule refl)
  show ?thesis
  proof (cases "autoFill ctx n ps = ps1")
    case True
    with a show ?thesis by simp
  next
    case False
    with f have k: "\<not> truthy (map_of ps1 ''projectSlug'')"
      and u: "autoFill ctx n ps = AList.update ''projectSlug'' (the (projectSlug ctx)) ps1"
      by (simp_all split: if_splits)
    from k a assms have "p \<noteq> ''projectSlug''" by auto
    with u a show ?thesis by (simp add: update_conv')
  qed
qed

lemma autoFill_keeps_required:
  assumes "find (\<lambda>cmd. name cmd = commandName) cmds = Some c"
    and "validateCommandParameters cmds commandName ps = Inr v" and "valid v"
    and "p \<in> set (params c)" and "\<not> endsWith p ''?''"
  shows "map_of (autoFill ctx n ps) p = map_of ps p"
  using valid_required_truthy[OF assms] by (rule autoFill_keeps_truthy)

lemma validate_autoFill:
  assumes "validateCommandParameters cmds commandName ps = Inr v" and "valid v"
  shows "validateCommandParameters cmds commandName (autoFill ctx n ps) = Inr v"
proof (cases "find (\<lambda>cmd. name cmd = commandName) cmds")
  case None
  with assms show ?thesis by (simp add: validateCommandParameters_def)
next
  case (Some c)
  have "\<forall>p \<in> set (filter (\<lambda>p. \<not> endsWith p ''?'') (params c)).
      map_of (autoFill ctx n ps) p = map_of ps p"
    using autoFill_keeps_required[OF Some assms] by simp
  from filterMissing_cong[OF this] Some assms(1) show ?thesis
    by (simp add: validateCommandParameters_def Let_def)
qed

text \<open>
  Claim C3 asks that the auto-fill from the session context comes before the
  required-parameter check, so that the context can supply a required
  \<^verbatim>\<open>workspaceSlug\<close>. The code has the block that fills the slugs from the context, and
  runs it after the check has already returned for a missing parameter; by
  \<open>autoFill_keeps_required\<close> the block never changes a required parameter. With the
  workspace w1 in the context, the command \<^verbatim>\<open>navigateToWorkspace\<close>, which requires the
  slug, and an empty payload, the turn returns no action and asks for the slug.
\<close>

theorem chat_required_slug_not_filled:
  "workspaceSlug exampleContext = Some (JStr ''w1'') \<and>
   find (\<lambda>cmd. name cmd = ''navigateToWorkspace'') (commands exampleEnv) =
     Some \<lparr>name = ''navigateToWorkspace'', params = [''workspaceSlug'']\<rparr> \<and>
   exampleReply ''open it'' = ''Opening. [COMMAND: navigateToWorkspace] {}'' \<and>
   fst (chat exampleEnv [''default'' \<mapsto> exampleContext] (exampleRequest ''open it'') ''u1'') =
     \<lparr>rmessage = ''Opening. [COMMAND: navigateToWorkspace] {}'' @ [CHR 0x0A, CHR 0x0A] @
        ''I need the following information to proceed: workspaceSlug.'',
      action = None, success = True, error = None\<rparr>"
proof -
  have r: "fst (resolveCommand exampleEnv exampleContext (exampleReply ''open it'')) =
     \<lparr>rmessage = ''Opening. [COMMAND: navigateToWorkspace] {}'' @ [CHR 0x0A, CHR 0x0A] @
        ''I need the following information to proceed: workspaceSlug.'',
      action = None, success = True, error = None\<rparr>"
    unfolding resolveCommand_def match_open_it
    by (simp add: trim_names resolve_simps exampleReply_def)
  have q: "requestReply exampleEnv [''default'' \<mapsto> exampleContext] (exampleRequest ''open it'') ''u1'' =
      ([''default'' \<mapsto> exampleContext], Inr (''default'', exampleContext, exampleReply ''open it''))"
    by (rule exampleEnv_reply) simp
  show ?thesis
    by (simp add: chat_reply[OF q] r)
      (simp add: exampleContext_def exampleEnv_def exampleReply_def)
qed

section \<open>The action of a project that is not found\<close>

lemma chat_action_valid:
  assumes "chat E contexts req userId = (resp, contexts')" and "action resp = Some a"
    and "aname a \<noteq> ''navigateToProject''"
  shows "\<exists>v. validateCommandParameters (commands E) (aname a) (parameters a) = Inr v \<and> valid v"
proof -
  from chat_action[OF assms(1,2)] obtain ctx aiMessage
    where "resp = fst (resolveCommand E ctx aiMessage)" by blast
  with assms(2) have "action (fst (resolveCommand E ctx aiMessage)) = Some a" by simp
  from resolveCommand_action[OF this] obtain g1 ps v where
      n: "aname a = trim g1"
      and v: "validateCommandParameters (commands E) (trim g1) ps = Inr v" "valid v"
      and p: "parameters a = fst (resolveProjectSlug E (trim g1) (autoFill ctx (trim g1) ps) aiMessage)"
    by blast
  from p n assms(3) have "parameters a = autoFill ctx (trim g1) ps"
    by (simp add: resolveProjectSlug_def)
  with n validate_autoFill[OF v, of ctx "trim g1"] v(2) show ?thesis by auto
qed

text \<open>
  Claim C2 asks that an action returned to the caller never has a missing or blank required
  parameter, also when \<^verbatim>\<open>navigateToProject\<close> resolves to not found. By
  \<open>chat_action_valid\<close> the action of every other command passes the validator as it
  is returned. On the path of \<^verbatim>\<open>navigateToProject\<close> the parameters are validated
  before the slug is resolved, and not again after not found has set the slug to the
  empty string: the turn returns the action with a blank \<^verbatim>\<open>projectSlug\<close>, which the
  validator itself reports as missing.
\<close>

theorem chat_not_found_returns_blank_slug:
  "exampleReply ''open nope'' =
     ''[COMMAND: navigateToProject] {\"workspaceSlug\":\"w1\",\"projectSlug\":\"nope\"}'' \<and>
   validateProjectSlug exampleEnv (Some (JStr ''nope'')) = (Not_found, []) \<and>
   fst (chat exampleEnv [''default'' \<mapsto> exampleContext] (exampleRequest ''open nope'') ''u1'') =
     \<lparr>rmessage = notFoundMessage,
      action = Some \<lparr>aname = ''navigateToProject'',
                     parameters = [(''workspaceSlug'', JStr ''w1''), (''projectSlug'', JStr [])]\<rparr>,
      success = True, error = None\<rparr> \<and>
   validateCommandParameters (commands exampleEnv) ''navigateToProject''
       [(''workspaceSlug'', JStr ''w1''), (''projectSlug'', JStr [])] =
     Inr \<lparr>valid = False, missing = [''projectSlug''],
          vmessage = Some ''Missing required parameters for navigateToProject: projectSlug''\<rparr>"
proof -
  have r: "fst (resolveCommand exampleEnv exampleContext (exampleReply ''open nope'')) =
     \<lparr>rmessage = notFoundMessage,
      action = Some \<lparr>aname = ''navigateToProject'',
                     parameters = [(''workspaceSlug'', JStr ''w1''), (''projectSlug'', JStr [])]\<rparr>,
      success = True, error = None\<rparr>"
    unfolding resolveCommand_def match_open_nope
    by (simp add: trim_names resolve_simps)
  have v: "validateCommandParameters (commands exampleEnv) ''navigateToProject''
       [(''workspaceSlug'', JStr ''w1''), (''projectSlug'', JStr [])] =
     Inr \<lparr>valid = False, missing = [''projectSlug''],
          vmessage = Some ''Missing required parameters for navigateToProject: projectSlug''\<rparr>"
    by (simp add: exampleEnv_def validateCommandParameters_def isMissing_def string_simps Let_def)
  have q: "requestReply exampleEnv [''default'' \<mapsto> exampleContext] (exampleRequest ''open nope'') ''u1'' =
      ([''default'' \<mapsto> exampleContext], Inr (''default'', exampleContext, exampleReply ''open nope''))"
    by (rule exampleEnv_reply) simp
  show ?thesis
    by (simp add: chat_reply[OF q] r v) (simp add: exampleEnv_def exampleReply_def)
qed

section \<open>Requests without a session id\<close>






end
